theory Spec2Isabelle
  imports Complex_Main "HOL-Library.AList" "HOL-Library.Multiset" "HOL-Library.Product_Lexorder"
begin

section \<open>Event Finder: storage layer and route handlers\<close>

text \<open>
  A shallow embedding of \<^verbatim>\<open>server/storage.ts\<close> (class \<^verbatim>\<open>MemStorage\<close>),
  \<^verbatim>\<open>server/pgStorage.ts\<close> (class \<^verbatim>\<open>PgStorage\<close>), the login and attend handlers of
  \<^verbatim>\<open>server/routes.ts\<close> and the table layouts of \<^verbatim>\<open>shared/schema.ts\<close>.

  Conventions of the embedding:
  \<^item> ids are \<open>int\<close>, array lengths are \<open>nat\<close>, a \<^verbatim>\<open>Date\<close> is its time value (an \<open>int\<close>);
    \<^verbatim>\<open>new Date()\<close> and \<^verbatim>\<open>defaultNow()\<close> read the clock, which the model takes as the
    argument \<open>now\<close>;
  \<^item> a nullable or optional field is an \<open>option\<close> (\<open>None\<close> is \<^verbatim>\<open>null\<close> or absent);
    \<^verbatim>\<open>undefined\<close> as a result is \<open>None\<close>;
  \<^item> a latitude, a longitude or a distance is a double-precision number, a value of the
    type \<open>number\<close> below; the floating-point operations on them (the arithmetic operators,
    \<^verbatim>\<open>Math.sin\<close>, \<^verbatim>\<open>Math.cos\<close>, \<^verbatim>\<open>Math.sqrt\<close>, \<^verbatim>\<open>Math.atan2\<close>, \<^verbatim>\<open>toFixed\<close>) belong to
    the runtime and are a parameter of the model, of which nothing is assumed;
  \<^item> strings are byte strings; \<^verbatim>\<open>toLowerCase\<close> is modelled on the ASCII letters;
  \<^item> every method is \<^verbatim>\<open>async\<close> and awaited by its caller at once, so a method is a
    function from the state to a result and the next state.
\<close>

subsection \<open>Tables and derived shapes (\<^verbatim>\<open>shared/schema.ts\<close>)\<close>

text \<open>
  The double-precision values: \<^verbatim>\<open>NaN\<close>, the two infinities, negative zero, and every other
  value by the real number it is (\<open>Num 0\<close> is positive zero). A decimal literal of the
  source, such as \<^verbatim>\<open>3958.8\<close>, is written \<open>Num 3958.8\<close> and stands for the double the
  literal denotes.
\<close>

datatype number = NaN | Infinity | NegInfinity | NegZero | Num real

text \<open>
  The place of a value in the order of the doubles (the two zeros share a place), and the
  comparison \<^verbatim>\<open>x <= y\<close>, which is false when either side is \<^verbatim>\<open>NaN\<close>.
\<close>

definition rank :: "number \<Rightarrow> int \<times> real" where
  "rank x =
     (case x of
        NaN \<Rightarrow> (0, 0)
      | Infinity \<Rightarrow> (1, 0)
      | NegInfinity \<Rightarrow> (- 1, 0)
      | NegZero \<Rightarrow> (0, 0)
      | Num r \<Rightarrow> (0, r))"

definition lessEq :: "number \<Rightarrow> number \<Rightarrow> bool" where
  "lessEq x y = (x \<noteq> NaN \<and> y \<noteq> NaN \<and> rank x \<le> rank y)"

text \<open>
  The floating-point operations of the runtime: the operators \<^verbatim>\<open>-\<close>, \<^verbatim>\<open>+\<close>, \<^verbatim>\<open>*\<close>, \<^verbatim>\<open>/\<close>
  on numbers, \<^verbatim>\<open>Math.sin\<close>, \<^verbatim>\<open>Math.cos\<close>, \<^verbatim>\<open>Math.sqrt\<close>, \<^verbatim>\<open>Math.atan2\<close>, \<^verbatim>\<open>Math.PI\<close>, and
  \<open>toFixed1 x\<close> for \<^verbatim>\<open>parseFloat(x.toFixed(1))\<close>. They round, and they return \<^verbatim>\<open>NaN\<close>
  where IEEE 754 and the language say so; the model takes them as they are.
\<close>

record FloatOps =
  fsub :: "number \<Rightarrow> number \<Rightarrow> number"
  fadd :: "number \<Rightarrow> number \<Rightarrow> number"
  fmul :: "number \<Rightarrow> number \<Rightarrow> number"
  fdiv :: "number \<Rightarrow> number \<Rightarrow> number"
  fsin :: "number \<Rightarrow> number"
  fcos :: "number \<Rightarrow> number"
  fsqrt :: "number \<Rightarrow> number"
  fatan2 :: "number \<Rightarrow> number \<Rightarrow> number"
  PI :: number
  toFixed1 :: "number \<Rightarrow> number"

record User =
  id :: int
  username :: string
  password :: string
  email :: string
  name :: string
  avatar :: "string option"
  createdAt :: int

record InsertUser =
  username :: string
  password :: string
  email :: string
  name :: string
  avatar :: "string option"

text \<open>
  \<^verbatim>\<open>distanceInKilometers\<close> is the column of the table; \<^verbatim>\<open>distanceInMiles\<close> is the
  property that \<^verbatim>\<open>MemStorage.createEvent\<close> writes and that both
  \<^verbatim>\<open>getEventsNearLocation\<close> attach to the object.
\<close>

record Event =
  id :: int
  title :: string
  description :: string
  location :: string
  address :: string
  latitude :: number
  longitude :: number
  date :: int
  endDate :: "int option"
  categoryId :: string
  price :: "int option"
  isFree :: bool
  imageUrl :: "string option"
  hostId :: int
  isOnline :: bool
  createdAt :: int
  distanceInKilometers :: "number option"
  distanceInMiles :: "number option"

record InsertEvent =
  title :: string
  description :: string
  location :: string
  address :: string
  latitude :: number
  longitude :: number
  date :: int
  endDate :: "int option"
  categoryId :: string
  price :: "int option"
  isFree :: "bool option"
  imageUrl :: "string option"
  hostId :: int
  isOnline :: "bool option"

record Attendee =
  id :: int
  userId :: int
  eventId :: int
  createdAt :: int

record InsertAttendee =
  userId :: int
  eventId :: int

text \<open>The summary \<^verbatim>\<open>{ id, name, avatar }\<close> of a host or an attendee.\<close>

record UserSummary =
  id :: int
  name :: string
  avatar :: string

record EventWithAttendees = Event +
  attendees :: nat
  attendeesList :: "UserSummary list"
  host :: UserSummary

text \<open>
  \<^verbatim>\<open>x || ''\<close> on a nullable string and \<^verbatim>\<open>x || 0\<close> on a nullable number: \<^verbatim>\<open>null\<close>,
  \<^verbatim>\<open>NaN\<close> and the two zeros give 0.
\<close>

definition orEmpty :: "string option \<Rightarrow> string" where
  "orEmpty x = (case x of None \<Rightarrow> '''' | Some a \<Rightarrow> a)"

definition orZero :: "number option \<Rightarrow> number" where
  "orZero x =
     (case x of
        None \<Rightarrow> Num 0
      | Some NaN \<Rightarrow> Num 0
      | Some NegZero \<Rightarrow> Num 0
      | Some d \<Rightarrow> d)"

text \<open>\<^verbatim>\<open>{ id: user.id, name: user.name, avatar: user.avatar || '' }\<close>\<close>

definition userSummary :: "User \<Rightarrow> UserSummary" where
  "userSummary user =
     \<lparr>UserSummary.id = User.id user, name = User.name user, avatar = orEmpty (User.avatar user)\<rparr>"

text \<open>\<^verbatim>\<open>{ ...event, attendees, attendeesList, host }\<close>\<close>

definition withAttendees :: "Event \<Rightarrow> nat \<Rightarrow> UserSummary list \<Rightarrow> UserSummary \<Rightarrow> EventWithAttendees" where
  "withAttendees event n l h = Event.extend event (EventWithAttendees.fields n l h)"

text \<open>\<^verbatim>\<open>result[0]\<close> of a query result: \<^verbatim>\<open>undefined\<close> on the empty array.\<close>

definition first :: "'a list \<Rightarrow> 'a option" where
  "first xs = (case xs of [] \<Rightarrow> None | x # _ \<Rightarrow> Some x)"

subsection \<open>The distance helper\<close>

definition deg2rad :: "FloatOps \<Rightarrow> number \<Rightarrow> number" where
  "deg2rad F deg = fmul F deg (fdiv F (PI F) (Num 180))"

definition mem_calculateDistance ::
  "FloatOps \<Rightarrow> number \<Rightarrow> number \<Rightarrow> number \<Rightarrow> number \<Rightarrow> number" where
  "mem_calculateDistance F lat1 lon1 lat2 lon2 =
     (let R = Num 3958.8;
          dLat = deg2rad F (fsub F lat2 lat1);
          dLon = deg2rad F (fsub F lon2 lon1);
          a = fadd F
                (fmul F (fsin F (fdiv F dLat (Num 2))) (fsin F (fdiv F dLat (Num 2))))
                (fmul F
                   (fmul F
                      (fmul F (fcos F (deg2rad F lat1)) (fcos F (deg2rad F lat2)))
                      (fsin F (fdiv F dLon (Num 2))))
                   (fsin F (fdiv F dLon (Num 2))));
          c = fmul F (Num 2) (fatan2 F (fsqrt F a) (fsqrt F (fsub F (Num 1) a)));
          distance = fmul F R c
      in toFixed1 F distance)"

definition pg_calculateDistance ::
  "FloatOps \<Rightarrow> number \<Rightarrow> number \<Rightarrow> number \<Rightarrow> number \<Rightarrow> number" where
  "pg_calculateDistance F lat1 lon1 lat2 lon2 =
     (let R = Num 6371;
          dLat = deg2rad F (fsub F lat2 lat1);
          dLon = deg2rad F (fsub F lon2 lon1);
          a = fadd F
                (fmul F (fsin F (fdiv F dLat (Num 2))) (fsin F (fdiv F dLat (Num 2))))
                (fmul F
                   (fmul F
                      (fmul F (fcos F (deg2rad F lat1)) (fcos F (deg2rad F lat2)))
                      (fsin F (fdiv F dLon (Num 2))))
                   (fsin F (fdiv F dLon (Num 2))));
          c = fmul F (Num 2) (fatan2 F (fsqrt F a) (fsqrt F (fsub F (Num 1) a)));
          distance = fmul F R c
      in toFixed1 F distance)"

text \<open>
  The tail of both \<^verbatim>\<open>getEventsNearLocation\<close>: attach the distance, keep the events
  that pass \<^verbatim>\<open>event.distanceInMiles <= distance\<close> (an event whose distance is \<^verbatim>\<open>NaN\<close>
  does not; \<^verbatim>\<open>null\<close> would compare as 0), sort by the comparator
  \<^verbatim>\<open>(a.distanceInMiles || 0) - (b.distanceInMiles || 0)\<close>. On the values that passed the
  test the sign of that difference is the order of the doubles, the difference of two
  equal infinities being \<^verbatim>\<open>NaN\<close>, which the sort reads as 0; so the sort is by \<open>rank\<close>.
  \<^verbatim>\<open>Array.prototype.sort\<close> is stable, as is \<open>sort_key\<close>.
\<close>

definition nearLocation ::
  "(number \<Rightarrow> number \<Rightarrow> number \<Rightarrow> number \<Rightarrow> number) \<Rightarrow> number \<Rightarrow> number \<Rightarrow> number \<Rightarrow>
   EventWithAttendees list \<Rightarrow> EventWithAttendees list" where
  "nearLocation calculateDistance lat lng distance allEvents =
     sort_key (\<lambda>event. rank (orZero (Event.distanceInMiles event)))
       (filter (\<lambda>event. case Event.distanceInMiles event of
                           None \<Rightarrow> lessEq (Num 0) distance
                         | Some d \<Rightarrow> lessEq d distance)
          (map (\<lambda>event. event\<lparr>Event.distanceInMiles :=
                  Some (calculateDistance lat lng (Event.latitude event) (Event.longitude event))\<rparr>)
             allEvents))"

subsection \<open>Text matching\<close>

text \<open>\<^verbatim>\<open>String.prototype.toLowerCase\<close> on ASCII and \<^verbatim>\<open>String.prototype.includes\<close>
  (\<open>includesStr s q\<close> is \<^verbatim>\<open>s.includes(q)\<close>).\<close>

definition lowerChar :: "char \<Rightarrow> char" where
  "lowerChar c =
     (if (65::nat) \<le> of_char c \<and> of_char c \<le> (90::nat)
      then char_of (of_char c + (32::nat)) else c)"

definition toLowerCase :: "string \<Rightarrow> string" where
  "toLowerCase s = map lowerChar s"

fun startsWith :: "string \<Rightarrow> string \<Rightarrow> bool" where
  "startsWith s [] = True"
| "startsWith [] (q # qs) = False"
| "startsWith (c # cs) (q # qs) = (c = q \<and> startsWith cs qs)"

fun includesStr :: "string \<Rightarrow> string \<Rightarrow> bool" where
  "includesStr [] q = (q = [])"
| "includesStr (c # cs) q = (startsWith (c # cs) q \<or> includesStr cs q)"

text \<open>
  The operator \<^verbatim>\<open>like\<close> of the query builder is SQL \<^verbatim>\<open>LIKE\<close>: the pattern must
  match the whole text, \<^verbatim>\<open>%\<close> stands for any run of characters, \<^verbatim>\<open>_\<close> for any one
  character, a backslash takes the next pattern character literally, and every other
  character stands for itself, upper and lower case being different characters.
  First argument: the pattern.
\<close>

function like :: "string \<Rightarrow> string \<Rightarrow> bool" where
  "like [] t = (t = [])"
| "like (p # ps) t =
     (if p = CHR ''%'' then
        (like ps t \<or> (case t of [] \<Rightarrow> False | c # cs \<Rightarrow> like (p # ps) cs))
      else if p = CHR ''_'' then
        (case t of [] \<Rightarrow> False | c # cs \<Rightarrow> like ps cs)
      else if p = CHR 0x5C then
        (case ps of [] \<Rightarrow> False
         | q # qs \<Rightarrow> (case t of [] \<Rightarrow> False | c # cs \<Rightarrow> c = q \<and> like qs cs))
      else
        (case t of [] \<Rightarrow> False | c # cs \<Rightarrow> c = p \<and> like ps cs))"
  by pat_completeness auto
termination
  by (relation "measure (\<lambda>(p, t). length p + length t)") auto

subsection \<open>\<^verbatim>\<open>MemStorage\<close>\<close>

text \<open>
  A \<^verbatim>\<open>Map<number, T>\<close> is an association list in insertion order: \<^verbatim>\<open>get\<close> is
  \<open>map_of\<close>, \<^verbatim>\<open>set\<close> is \<open>AList.update\<close> (in place for a key that is present, at
  the end otherwise), \<^verbatim>\<open>delete\<close> is \<open>AList.delete\<close>, \<^verbatim>\<open>values()\<close> is \<open>map snd\<close>.
\<close>

record MemStorage =
  users :: "(int \<times> User) list"
  events :: "(int \<times> Event) list"
  attendees :: "(int \<times> Attendee) list"
  userId :: int
  eventId :: int
  attendeeId :: int

datatype error = TypeError | UniqueViolation | OutOfRange

definition mem_getUser :: "MemStorage \<Rightarrow> int \<Rightarrow> User option" where
  "mem_getUser s i = map_of (MemStorage.users s) i"

definition mem_getUserByUsername :: "MemStorage \<Rightarrow> string \<Rightarrow> User option" where
  "mem_getUserByUsername s uname =
     find (\<lambda>user. User.username user = uname) (map snd (MemStorage.users s))"

definition mem_createUser :: "int \<Rightarrow> InsertUser \<Rightarrow> MemStorage \<Rightarrow> User \<times> MemStorage" where
  "mem_createUser now insertUser s =
     (let i = MemStorage.userId s;
          user = \<lparr>User.id = i,
                  username = InsertUser.username insertUser,
                  password = InsertUser.password insertUser,
                  email = InsertUser.email insertUser,
                  name = InsertUser.name insertUser,
                  avatar = InsertUser.avatar insertUser,
                  createdAt = now\<rparr>
      in (user, s\<lparr>MemStorage.userId := i + 1,
                  MemStorage.users := AList.update i user (MemStorage.users s)\<rparr>))"

definition mem_getEvent :: "MemStorage \<Rightarrow> int \<Rightarrow> EventWithAttendees option" where
  "mem_getEvent s i =
     (case map_of (MemStorage.events s) i of
        None \<Rightarrow> None
      | Some event \<Rightarrow>
          (let eventAttendees =
                 filter (\<lambda>a. Attendee.eventId a = i) (map snd (MemStorage.attendees s))
           in case map_of (MemStorage.users s) (Event.hostId event) of
                None \<Rightarrow> None
              | Some h \<Rightarrow>
                  (let attendeeUsers =
                         List.map_filter
                           (\<lambda>a. map_option userSummary
                                  (map_of (MemStorage.users s) (Attendee.userId a)))
                           eventAttendees
                   in Some (withAttendees event (length eventAttendees) attendeeUsers
                              (userSummary h)))))"

text \<open>
  The list operations cast each \<^verbatim>\<open>getEvent\<close> result to \<^verbatim>\<open>EventWithAttendees\<close>;
  the array holds \<^verbatim>\<open>undefined\<close> where \<^verbatim>\<open>getEvent\<close> returned it.
\<close>

definition mem_getAllEvents :: "MemStorage \<Rightarrow> EventWithAttendees option list" where
  "mem_getAllEvents s =
     map (\<lambda>event. mem_getEvent s (Event.id event)) (map snd (MemStorage.events s))"

definition mem_getEventsByCategory :: "MemStorage \<Rightarrow> string \<Rightarrow> EventWithAttendees option list" where
  "mem_getEventsByCategory s c =
     (if c = ''All'' then mem_getAllEvents s
      else map (\<lambda>event. mem_getEvent s (Event.id event))
             (filter (\<lambda>event. Event.categoryId event = c) (map snd (MemStorage.events s))))"

text \<open>
  Reading \<^verbatim>\<open>event.latitude\<close> of an \<^verbatim>\<open>undefined\<close> entry throws a \<^verbatim>\<open>TypeError\<close>,
  which rejects the promise.
\<close>

definition mem_getEventsNearLocation ::
  "FloatOps \<Rightarrow> MemStorage \<Rightarrow> number \<Rightarrow> number \<Rightarrow> number \<Rightarrow> error + EventWithAttendees list" where
  "mem_getEventsNearLocation F s lat lng distance =
     (case those (mem_getAllEvents s) of
        None \<Rightarrow> Inl TypeError
      | Some allEvents \<Rightarrow>
          Inr (nearLocation (mem_calculateDistance F) lat lng distance allEvents))"

definition mem_searchEvents :: "MemStorage \<Rightarrow> string \<Rightarrow> EventWithAttendees option list" where
  "mem_searchEvents s query =
     (let lowercaseQuery = toLowerCase query
      in map (\<lambda>event. mem_getEvent s (Event.id event))
           (filter (\<lambda>event.
                      includesStr (toLowerCase (Event.title event)) lowercaseQuery \<or>
                      includesStr (toLowerCase (Event.description event)) lowercaseQuery \<or>
                      includesStr (toLowerCase (Event.location event)) lowercaseQuery)
              (map snd (MemStorage.events s))))"

definition mem_createEvent :: "int \<Rightarrow> InsertEvent \<Rightarrow> MemStorage \<Rightarrow> Event \<times> MemStorage" where
  "mem_createEvent now insertEvent s =
     (let i = MemStorage.eventId s;
          event = \<lparr>Event.id = i,
                   title = InsertEvent.title insertEvent,
                   description = InsertEvent.description insertEvent,
                   location = InsertEvent.location insertEvent,
                   address = InsertEvent.address insertEvent,
                   latitude = InsertEvent.latitude insertEvent,
                   longitude = InsertEvent.longitude insertEvent,
                   date = InsertEvent.date insertEvent,
                   endDate = InsertEvent.endDate insertEvent,
                   categoryId = InsertEvent.categoryId insertEvent,
                   price = InsertEvent.price insertEvent,
                   isFree = (case InsertEvent.isFree insertEvent of None \<Rightarrow> False | Some b \<Rightarrow> b),
                   imageUrl = InsertEvent.imageUrl insertEvent,
                   hostId = InsertEvent.hostId insertEvent,
                   isOnline = (case InsertEvent.isOnline insertEvent of None \<Rightarrow> False | Some b \<Rightarrow> b),
                   createdAt = now,
                   distanceInKilometers = None,
                   distanceInMiles = None\<rparr>
      in (event, s\<lparr>MemStorage.eventId := i + 1,
                   MemStorage.events := AList.update i event (MemStorage.events s)\<rparr>))"

definition mem_deleteEvent :: "MemStorage \<Rightarrow> int \<Rightarrow> bool \<times> MemStorage" where
  "mem_deleteEvent s i =
     (map_of (MemStorage.events s) i \<noteq> None,
      s\<lparr>MemStorage.events := AList.delete i (MemStorage.events s)\<rparr>)"

definition mem_getEventAttendees :: "MemStorage \<Rightarrow> int \<Rightarrow> Attendee list" where
  "mem_getEventAttendees s e =
     filter (\<lambda>attendee. Attendee.eventId attendee = e) (map snd (MemStorage.attendees s))"

definition mem_createAttendee :: "int \<Rightarrow> InsertAttendee \<Rightarrow> MemStorage \<Rightarrow> Attendee \<times> MemStorage" where
  "mem_createAttendee now insertAttendee s =
     (let i = MemStorage.attendeeId s;
          attendee = \<lparr>Attendee.id = i,
                      userId = InsertAttendee.userId insertAttendee,
                      eventId = InsertAttendee.eventId insertAttendee,
                      createdAt = now\<rparr>
      in (attendee, s\<lparr>MemStorage.attendeeId := i + 1,
                      MemStorage.attendees := AList.update i attendee (MemStorage.attendees s)\<rparr>))"

definition mem_deleteAttendee :: "MemStorage \<Rightarrow> int \<Rightarrow> int \<Rightarrow> bool \<times> MemStorage" where
  "mem_deleteAttendee s u e =
     (case find (\<lambda>a. Attendee.userId a = u \<and> Attendee.eventId a = e)
             (map snd (MemStorage.attendees s)) of
        None \<Rightarrow> (False, s)
      | Some attendee \<Rightarrow>
          (map_of (MemStorage.attendees s) (Attendee.id attendee) \<noteq> None,
           s\<lparr>MemStorage.attendees :=
               AList.delete (Attendee.id attendee) (MemStorage.attendees s)\<rparr>))"

definition mem_isUserAttending :: "MemStorage \<Rightarrow> int \<Rightarrow> int \<Rightarrow> bool" where
  "mem_isUserAttending s u e =
     list_ex (\<lambda>a. Attendee.userId a = u \<and> Attendee.eventId a = e)
       (map snd (MemStorage.attendees s))"

text \<open>
  The constructor: empty maps, counters at 1, then \<^verbatim>\<open>seedData()\<close>. The users and
  events are stored during the call, the attendee rows when the promises of the seed have
  resolved; \<open>new_MemStorage\<close> is the store after that. The date literals of the seed
  carry no zone; their time values are given as read in UTC.
\<close>

definition johndoe :: InsertUser where
  "johndoe =
     \<lparr>InsertUser.username = ''johndoe'', password = ''password123'',
      email = ''john@example.com'', name = ''John Doe'',
      avatar = Some ''https://images.unsplash.com/photo-1500648767791-00dcc994a43e?ixlib=rb-1.2.1&ixid=eyJhcHBfaWQiOjEyMDd9&auto=format&fit=facearea&facepad=2&w=256&h=256&q=80''\<rparr>"

definition janedoe :: InsertUser where
  "janedoe =
     \<lparr>InsertUser.username = ''janedoe'', password = ''password123'',
      email = ''jane@example.com'', name = ''Jane Doe'',
      avatar = Some ''https://images.unsplash.com/photo-1494790108377-be9c29b29330?ixlib=rb-1.2.1&ixid=eyJhcHBfaWQiOjEyMDd9&auto=format&fit=facearea&facepad=2&w=256&h=256&q=80''\<rparr>"

definition seedEvent1 :: "int \<Rightarrow> InsertEvent" where
  "seedEvent1 h =
     \<lparr>InsertEvent.title = ''Summer Music Festival'',
      description = ''Join us for a day of amazing music performances in Central Park!'',
      location = ''Central Park'',
      address = ''Central Park, New York, NY'',
      latitude = Num 40.785091, longitude = Num (- 73.968285),
      date = 1686837600000, endDate = Some 1686866400000,
      categoryId = ''Music'', price = Some 25, isFree = Some False,
      imageUrl = Some ''https://images.unsplash.com/photo-1501281668745-f7f57925c3b4?ixlib=rb-1.2.1&auto=format&fit=crop&w=800&h=500&q=80'',
      hostId = h, isOnline = Some False\<rparr>"

definition seedEvent2 :: "int \<Rightarrow> InsertEvent" where
  "seedEvent2 h =
     \<lparr>InsertEvent.title = ''Annual Tech Conference'',
      description = ''The biggest tech conference in New York City'',
      location = ''Javits Center'',
      address = ''Javits Center, New York, NY'',
      latitude = Num 40.7570877, longitude = Num (- 74.0028733),
      date = 1687597200000, endDate = Some 1687629600000,
      categoryId = ''Business'', price = Some 149, isFree = Some False,
      imageUrl = Some ''https://images.unsplash.com/photo-1517457373958-b7bdd4587205?ixlib=rb-1.2.1&auto=format&fit=crop&w=800&h=500&q=80'',
      hostId = h, isOnline = Some False\<rparr>"

definition seedEvent3 :: "int \<Rightarrow> InsertEvent" where
  "seedEvent3 h =
     \<lparr>InsertEvent.title = ''International Food Festival'',
      description = ''Taste foods from all around the world'',
      location = ''Bryant Park'',
      address = ''Bryant Park, New York, NY'',
      latitude = Num 40.753605, longitude = Num (- 73.9834889),
      date = 1687086000000, endDate = Some 1687118400000,
      categoryId = ''Food'', price = Some 0, isFree = Some True,
      imageUrl = Some ''https://images.unsplash.com/photo-1470753937643-efeb931202a9?ixlib=rb-1.2.1&auto=format&fit=crop&w=800&h=500&q=80'',
      hostId = h, isOnline = Some False\<rparr>"

definition seedEvent4 :: "int \<Rightarrow> InsertEvent" where
  "seedEvent4 h =
     \<lparr>InsertEvent.title = ''Modern Art Exhibition'',
      description = ''Featuring modern art from local and international artists'',
      location = ''MoMA'',
      address = ''MoMA, New York, NY'',
      latitude = Num 40.7614327, longitude = Num (- 73.9776216),
      date = 1687255200000, endDate = Some 1687284000000,
      categoryId = ''Arts'', price = Some 15, isFree = Some False,
      imageUrl = Some ''https://images.unsplash.com/photo-1527525443983-6e60c75fff46?ixlib=rb-1.2.1&auto=format&fit=crop&w=800&h=500&q=80'',
      hostId = h, isOnline = Some False\<rparr>"

definition seedEvent5 :: "int \<Rightarrow> InsertEvent" where
  "seedEvent5 h =
     \<lparr>InsertEvent.title = ''Startup Networking Mixer'',
      description = ''Connect with other entrepreneurs and startups in NYC'',
      location = ''WeWork'',
      address = ''WeWork, New York, NY'',
      latitude = Num 40.7484, longitude = Num (- 73.9857),
      date = 1687458600000, endDate = Some 1687469400000,
      categoryId = ''Business'', price = Some 10, isFree = Some False,
      imageUrl = Some ''https://images.unsplash.com/photo-1521737604893-d14cc237f11d?ixlib=rb-1.2.1&auto=format&fit=crop&w=800&h=500&q=80'',
      hostId = h, isOnline = Some False\<rparr>"

definition seedEvent6 :: "int \<Rightarrow> InsertEvent" where
  "seedEvent6 h =
     \<lparr>InsertEvent.title = ''Sunset Yoga Workshop'',
      description = ''Relax and unwind with sunset yoga on the High Line'',
      location = ''The High Line'',
      address = ''The High Line, New York, NY'',
      latitude = Num 40.7479925, longitude = Num (- 74.0047649),
      date = 1686942000000, endDate = Some 1686947400000,
      categoryId = ''Health'', price = Some 20, isFree = Some False,
      imageUrl = Some ''https://images.unsplash.com/photo-1540747913346-19e32dc3e97e?ixlib=rb-1.2.1&auto=format&fit=crop&w=800&h=500&q=80'',
      hostId = h, isOnline = Some False\<rparr>"

definition attendeeOf :: "int \<Rightarrow> int \<Rightarrow> InsertAttendee" where
  "attendeeOf u e = \<lparr>InsertAttendee.userId = u, eventId = e\<rparr>"

definition mem_seedData :: "int \<Rightarrow> MemStorage \<Rightarrow> MemStorage" where
  "mem_seedData now s0 =
     (let s = snd (mem_createUser now johndoe s0);
          s = snd (mem_createUser now janedoe s);
          s = snd (mem_createEvent now (seedEvent1 1) s);
          s = snd (mem_createEvent now (seedEvent2 2) s);
          s = snd (mem_createEvent now (seedEvent3 1) s);
          s = snd (mem_createEvent now (seedEvent4 2) s);
          s = snd (mem_createEvent now (seedEvent5 1) s);
          s = snd (mem_createEvent now (seedEvent6 2) s);
          s = snd (mem_createAttendee now (attendeeOf 1 2) s);
          s = snd (mem_createAttendee now (attendeeOf 2 1) s);
          s = snd (mem_createAttendee now (attendeeOf 1 3) s);
          s = snd (mem_createAttendee now (attendeeOf 2 3) s);
          s = snd (mem_createAttendee now (attendeeOf 1 5) s);
          s = snd (mem_createAttendee now (attendeeOf 2 4) s);
          s = snd (mem_createAttendee now (attendeeOf 1 6) s)
      in s)"

definition new_MemStorage :: "int \<Rightarrow> MemStorage" where
  "new_MemStorage now =
     mem_seedData now
       \<lparr>MemStorage.users = [], events = [], attendees = [],
        userId = 1, eventId = 1, attendeeId = 1\<rparr>"

subsection \<open>\<^verbatim>\<open>PgStorage\<close>\<close>

text \<open>
  The database behind \<^verbatim>\<open>db\<close>: the three tables as the table definitions of
  \<^verbatim>\<open>shared/schema.ts\<close> declare them, rows in the order a \<^verbatim>\<open>select\<close> without a
  sort returns them, and the sequence of each \<^verbatim>\<open>serial\<close> id. The constraints are the
  declared ones: the primary keys, and \<^verbatim>\<open>unique()\<close> on \<^verbatim>\<open>users.username\<close> and
  \<^verbatim>\<open>users.email\<close>; the table definitions declare no foreign key. (The SQL file of
  the initial schema adds foreign keys and a uniqueness constraint on the pair
  \<^verbatim>\<open>(user_id, event_id)\<close>, but it names the distance column \<^verbatim>\<open>distance_in_miles\<close>,
  which is not the column the queries select; the model follows the table definitions
  that the queries are built from.) A failing statement throws (\<open>Inl\<close>); a sequence
  value that was drawn stays drawn. Connection failures are outside the model.

  The integer columns are 32-bit. An integer outside that range cannot be stored, and a
  statement that carries one as a parameter fails before it does anything
  (\<open>OutOfRange\<close>); so does an insert when the sequence of the id has left the range.
  This is written out for \<^verbatim>\<open>getEvent\<close>, whose argument is whatever integer a caller
  passes, and for the three inserts. The other methods that read by an id are stated
  for ids that fit the column.

  \<^verbatim>\<open>select().from(t).where(eq(c, v))\<close> is \<open>filter\<close>, \<^verbatim>\<open>insert(t).values(r).returning()\<close>
  appends the row with its defaults filled in, \<^verbatim>\<open>delete(t).where(p).returning()\<close> removes the
  rows that satisfy \<^verbatim>\<open>p\<close> and returns them.
\<close>

definition int4 :: "int \<Rightarrow> bool" where
  "int4 i = (- 2147483648 \<le> i \<and> i \<le> 2147483647)"

record PgDb =
  users :: "User list"
  events :: "Event list"
  attendees :: "Attendee list"
  users_id_seq :: int
  events_id_seq :: int
  attendees_id_seq :: int

definition pg_getUser :: "PgDb \<Rightarrow> int \<Rightarrow> User option" where
  "pg_getUser db i = first (filter (\<lambda>u. User.id u = i) (PgDb.users db))"


definition pg_createUser :: "int \<Rightarrow> InsertUser \<Rightarrow> PgDb \<Rightarrow> (error + User) \<times> PgDb" where
  "pg_createUser now user db =
     (let i = PgDb.users_id_seq db;
          db1 = db\<lparr>PgDb.users_id_seq := i + 1\<rparr>;
          row = \<lparr>User.id = i,
                 username = InsertUser.username user,
                 password = InsertUser.password user,
                 email = InsertUser.email user,
                 name = InsertUser.name user,
                 avatar = InsertUser.avatar user,
                 createdAt = now\<rparr>
      in if \<not> int4 i then (Inl OutOfRange, db)
         else if list_ex (\<lambda>u. User.id u = i \<or>
                          User.username u = InsertUser.username user \<or>
                          User.email u = InsertUser.email user) (PgDb.users db)
         then (Inl UniqueViolation, db1)
         else (Inr row, db1\<lparr>PgDb.users := PgDb.users db @ [row]\<rparr>))"

definition pg_getFormattedAttendees :: "PgDb \<Rightarrow> int \<Rightarrow> UserSummary list" where
  "pg_getFormattedAttendees db e =
     (let eventAttendees = filter (\<lambda>a. Attendee.eventId a = e) (PgDb.attendees db)
      in List.map_filter
           (\<lambda>attendee.
              case filter (\<lambda>u. User.id u = Attendee.userId attendee) (PgDb.users db) of
                [] \<Rightarrow> None
              | user # _ \<Rightarrow> Some (userSummary user))
           eventAttendees)"

text \<open>
  The first statement of \<^verbatim>\<open>getEvent\<close> compares the id column with the argument; with
  an argument outside the range it fails, and the promise is rejected.
\<close>

definition pg_getEvent :: "PgDb \<Rightarrow> int \<Rightarrow> error + EventWithAttendees option" where
  "pg_getEvent db i =
     (if \<not> int4 i then Inl OutOfRange
      else
        (case filter (\<lambda>e. Event.id e = i) (PgDb.events db) of
           [] \<Rightarrow> Inr None
         | event # _ \<Rightarrow>
             (let attendeesList = pg_getFormattedAttendees db i;
                  attendeesCount = length attendeesList
              in case filter (\<lambda>u. User.id u = Event.hostId event) (PgDb.users db) of
                   [] \<Rightarrow> Inr None
                 | h # _ \<Rightarrow>
                     Inr (Some (withAttendees event attendeesCount attendeesList
                                  (userSummary h))))))"

text \<open>
  The function that \<^verbatim>\<open>getAllEvents\<close>, \<^verbatim>\<open>getEventsByCategory\<close> and
  \<^verbatim>\<open>searchEvents\<close> each map over their rows (the same text in all three).
\<close>

definition unknownHost :: UserSummary where
  "unknownHost = \<lparr>UserSummary.id = 0, name = ''Unknown'', avatar = ''''\<rparr>"

definition pg_withDetails :: "PgDb \<Rightarrow> Event \<Rightarrow> EventWithAttendees" where
  "pg_withDetails db event =
     (let attendeesList = pg_getFormattedAttendees db (Event.id event);
          hostResult = filter (\<lambda>u. User.id u = Event.hostId event) (PgDb.users db);
          h = (case hostResult of [] \<Rightarrow> unknownHost | u # _ \<Rightarrow> userSummary u)
      in withAttendees event (length attendeesList) attendeesList h)"

definition pg_getAllEvents :: "PgDb \<Rightarrow> EventWithAttendees list" where
  "pg_getAllEvents db = map (pg_withDetails db) (PgDb.events db)"

definition pg_getEventsByCategory :: "PgDb \<Rightarrow> string \<Rightarrow> EventWithAttendees list" where
  "pg_getEventsByCategory db c =
     (if c = ''All'' then pg_getAllEvents db
      else map (pg_withDetails db) (filter (\<lambda>e. Event.categoryId e = c) (PgDb.events db)))"

definition pg_getEventsNearLocation ::
  "FloatOps \<Rightarrow> PgDb \<Rightarrow> number \<Rightarrow> number \<Rightarrow> number \<Rightarrow> EventWithAttendees list" where
  "pg_getEventsNearLocation F db lat lng distance =
     nearLocation (pg_calculateDistance F) lat lng distance (pg_getAllEvents db)"

definition pg_searchEvents :: "PgDb \<Rightarrow> string \<Rightarrow> EventWithAttendees list" where
  "pg_searchEvents db query =
     (let searchPattern = ''%'' @ query @ ''%''
      in map (pg_withDetails db)
           (filter (\<lambda>e. like searchPattern (Event.title e) \<or>
                         like searchPattern (Event.description e) \<or>
                         like searchPattern (Event.location e))
              (PgDb.events db)))"

definition pg_createEvent :: "int \<Rightarrow> InsertEvent \<Rightarrow> PgDb \<Rightarrow> (error + Event) \<times> PgDb" where
  "pg_createEvent now event db =
     (let i = PgDb.events_id_seq db;
          db1 = db\<lparr>PgDb.events_id_seq := i + 1\<rparr>;
          row = \<lparr>Event.id = i,
                 title = InsertEvent.title event,
                 description = InsertEvent.description event,
                 location = InsertEvent.location event,
                 address = InsertEvent.address event,
                 latitude = InsertEvent.latitude event,
                 longitude = InsertEvent.longitude event,
                 date = InsertEvent.date event,
                 endDate = InsertEvent.endDate event,
                 categoryId = InsertEvent.categoryId event,
                 price = InsertEvent.price event,
                 isFree = (case InsertEvent.isFree event of None \<Rightarrow> False | Some b \<Rightarrow> b),
                 imageUrl = InsertEvent.imageUrl event,
                 hostId = InsertEvent.hostId event,
                 isOnline = (case InsertEvent.isOnline event of None \<Rightarrow> False | Some b \<Rightarrow> b),
                 createdAt = now,
                 distanceInKilometers = None,
                 distanceInMiles = None\<rparr>
      in if \<not> int4 (InsertEvent.hostId event) \<or>
            (case InsertEvent.price event of None \<Rightarrow> False | Some p \<Rightarrow> \<not> int4 p) \<or>
            \<not> int4 i
         then (Inl OutOfRange, db)
         else if list_ex (\<lambda>e. Event.id e = i) (PgDb.events db)
         then (Inl UniqueViolation, db1)
         else (Inr row, db1\<lparr>PgDb.events := PgDb.events db @ [row]\<rparr>))"

text \<open>
  A \<^verbatim>\<open>delete\<close> that fails (an id outside the range) is caught and answered with
  \<^verbatim>\<open>false\<close>, nothing being deleted; the filters give the same for an id that no row has.
\<close>

definition pg_deleteEvent :: "PgDb \<Rightarrow> int \<Rightarrow> bool \<times> PgDb" where
  "pg_deleteEvent db i =
     (let db1 = db\<lparr>PgDb.attendees := filter (\<lambda>a. Attendee.eventId a \<noteq> i) (PgDb.attendees db)\<rparr>;
          result = filter (\<lambda>e. Event.id e = i) (PgDb.events db1);
          db2 = db1\<lparr>PgDb.events := filter (\<lambda>e. Event.id e \<noteq> i) (PgDb.events db1)\<rparr>
      in (0 < length result, db2))"

definition pg_getEventAttendees :: "PgDb \<Rightarrow> int \<Rightarrow> Attendee list" where
  "pg_getEventAttendees db e = filter (\<lambda>a. Attendee.eventId a = e) (PgDb.attendees db)"

definition pg_createAttendee :: "int \<Rightarrow> InsertAttendee \<Rightarrow> PgDb \<Rightarrow> (error + Attendee) \<times> PgDb" where
  "pg_createAttendee now attendeeData db =
     (let i = PgDb.attendees_id_seq db;
          db1 = db\<lparr>PgDb.attendees_id_seq := i + 1\<rparr>;
          row = \<lparr>Attendee.id = i,
                 userId = InsertAttendee.userId attendeeData,
                 eventId = InsertAttendee.eventId attendeeData,
                 createdAt = now\<rparr>
      in if \<not> int4 (InsertAttendee.userId attendeeData) \<or>
            \<not> int4 (InsertAttendee.eventId attendeeData) \<or>
            \<not> int4 i
         then (Inl OutOfRange, db)
         else if list_ex (\<lambda>a. Attendee.id a = i) (PgDb.attendees db)
         then (Inl UniqueViolation, db1)
         else (Inr row, db1\<lparr>PgDb.attendees := PgDb.attendees db @ [row]\<rparr>))"

definition pg_deleteAttendee :: "PgDb \<Rightarrow> int \<Rightarrow> int \<Rightarrow> bool \<times> PgDb" where
  "pg_deleteAttendee db u e =
     (let result = filter (\<lambda>a. Attendee.userId a = u \<and> Attendee.eventId a = e) (PgDb.attendees db)
      in (0 < length result,
          db\<lparr>PgDb.attendees :=
               filter (\<lambda>a. \<not> (Attendee.userId a = u \<and> Attendee.eventId a = e))
                 (PgDb.attendees db)\<rparr>))"

definition pg_isUserAttending :: "PgDb \<Rightarrow> int \<Rightarrow> int \<Rightarrow> bool" where
  "pg_isUserAttending db u e =
     (let result = filter (\<lambda>a. Attendee.userId a = u \<and> Attendee.eventId a = e) (PgDb.attendees db)
      in 0 < length result)"

definition emptyDb :: PgDb where
  "emptyDb =
     \<lparr>PgDb.users = [], events = [], attendees = [],
      users_id_seq = 1, events_id_seq = 1, attendees_id_seq = 1\<rparr>"

subsection \<open>Route handlers (\<^verbatim>\<open>server/routes.ts\<close>, on \<^verbatim>\<open>storage = pgStorage\<close>)\<close>

record Session =
  user :: "User option"
  userId :: "int option"

text \<open>\<^verbatim>\<open>const { password, ...userWithoutPassword } = user\<close>\<close>

record UserWithoutPassword =
  id :: int
  username :: string
  email :: string
  name :: string
  avatar :: "string option"
  createdAt :: int


text \<open>
  The JSON bodies the two handlers send: \<^verbatim>\<open>{ message }\<close>, \<^verbatim>\<open>{ success, message }\<close>,
  \<^verbatim>\<open>{ success, user }\<close>, and an event (or \<^verbatim>\<open>undefined\<close>).
\<close>

datatype json =
  MessageBody string
| SuccessMessageBody bool string
| SuccessUserBody bool UserWithoutPassword
| EventBody "EventWithAttendees option"

record Response =
  status :: nat
  body :: json

text \<open>
  The body of a login request: the two properties the handler reads, \<open>None\<close> when the
  property is missing. \<^verbatim>\<open>!x\<close> holds of a missing property and of the empty string.
\<close>

record LoginRequest =
  username :: "string option"
  password :: "string option"



text \<open>
  \<^verbatim>\<open>parseInt(id)\<close> without a radix: leading white space is skipped, then an optional
  sign, then \<^verbatim>\<open>0x\<close> or \<^verbatim>\<open>0X\<close> selects base 16, then the longest run of digits of the base
  is read; \<^verbatim>\<open>NaN\<close> (\<open>None\<close>) when that run is empty. The integers are unbounded here,
  and the white space is the ASCII one.
\<close>

definition isWhiteSpace :: "char \<Rightarrow> bool" where
  "isWhiteSpace c = (c \<in> set [CHR 0x09, CHR 0x0A, CHR 0x0B, CHR 0x0C, CHR 0x0D, CHR 0x20])"

definition digitValue :: "char \<Rightarrow> nat option" where
  "digitValue c =
     (let n = (of_char c :: nat)
      in if 48 \<le> n \<and> n \<le> 57 then Some (n - 48)
         else if 97 \<le> n \<and> n \<le> 122 then Some (n - 87)
         else if 65 \<le> n \<and> n \<le> 90 then Some (n - 55)
         else None)"

definition isRadixDigit :: "nat \<Rightarrow> char \<Rightarrow> bool" where
  "isRadixDigit R c = (case digitValue c of None \<Rightarrow> False | Some d \<Rightarrow> d < R)"

definition parseInt :: "string \<Rightarrow> int option" where
  "parseInt string =
     (let S = dropWhile isWhiteSpace string;
          sign = (if take 1 S = ''-'' then - 1 else (1::int));
          S = (if take 1 S = ''-'' \<or> take 1 S = ''+'' then drop 1 S else S);
          R = (if take 2 S = ''0x'' \<or> take 2 S = ''0X'' then 16 else (10::nat));
          S = (if take 2 S = ''0x'' \<or> take 2 S = ''0X'' then drop 2 S else S);
          Z = takeWhile (isRadixDigit R) S
      in if Z = [] then None
         else Some (sign * int (foldl (\<lambda>n c. n * R + (case digitValue c of None \<Rightarrow> 0 | Some d \<Rightarrow> d))
                                  0 Z)))"

text \<open>
  \<^verbatim>\<open>POST /api/events/:id/attend\<close>. \<^verbatim>\<open>!req.session.userId\<close> holds of a missing id and
  of 0. A throwing \<^verbatim>\<open>createAttendee\<close> or \<^verbatim>\<open>getEvent\<close> is caught and answered with 500.
  For an event id outside the 32-bit range it is \<^verbatim>\<open>isUserAttending\<close> that throws in the
  handler; here the insert that follows fails instead, with the same answer (500) and
  the same, unchanged, database.
\<close>

definition post_events_attend :: "int \<Rightarrow> PgDb \<Rightarrow> Session \<Rightarrow> string \<Rightarrow> Response \<times> PgDb" where
  "post_events_attend now db session idParam =
     (case Session.userId session of
        None \<Rightarrow>
          (\<lparr>status = 401, body = MessageBody ''You must be logged in to register for events''\<rparr>, db)
      | Some u \<Rightarrow>
          if u = 0 then
            (\<lparr>status = 401, body = MessageBody ''You must be logged in to register for events''\<rparr>, db)
          else
            (case parseInt idParam of
               None \<Rightarrow> (\<lparr>status = 400, body = MessageBody ''Invalid event ID''\<rparr>, db)
             | Some e \<Rightarrow>
                 if pg_isUserAttending db u e then
                   (\<lparr>status = 400, body = MessageBody ''You are already registered for this event''\<rparr>,
                    db)
                 else
                   (case pg_createAttendee now (attendeeOf u e) db of
                      (Inl err, db') \<Rightarrow>
                        (\<lparr>status = 500, body = MessageBody ''Failed to register for event''\<rparr>, db')
                    | (Inr newAttendee, db') \<Rightarrow>
                        (case pg_getEvent db' e of
                           Inl err \<Rightarrow>
                             (\<lparr>status = 500, body = MessageBody ''Failed to register for event''\<rparr>,
                              db')
                         | Inr updatedEvent \<Rightarrow>
                             (\<lparr>status = 201, body = EventBody updatedEvent\<rparr>, db')))))"

subsection \<open>Example states\<close>

text \<open>
  The rows that \<^verbatim>\<open>seedDatabase\<close> inserts, inserted into empty tables.
\<close>

definition pg_seeded :: "int \<Rightarrow> PgDb" where
  "pg_seeded now =
     (let db = snd (pg_createUser now johndoe emptyDb);
          db = snd (pg_createUser now janedoe db);
          db = snd (pg_createEvent now (seedEvent1 1) db);
          db = snd (pg_createEvent now (seedEvent2 2) db);
          db = snd (pg_createEvent now (seedEvent3 1) db);
          db = snd (pg_createEvent now (seedEvent4 2) db);
          db = snd (pg_createEvent now (seedEvent5 1) db);
          db = snd (pg_createEvent now (seedEvent6 2) db);
          db = snd (pg_createAttendee now (attendeeOf 1 2) db);
          db = snd (pg_createAttendee now (attendeeOf 2 1) db);
          db = snd (pg_createAttendee now (attendeeOf 1 3) db);
          db = snd (pg_createAttendee now (attendeeOf 2 3) db);
          db = snd (pg_createAttendee now (attendeeOf 1 5) db);
          db = snd (pg_createAttendee now (attendeeOf 2 4) db);
          db = snd (pg_createAttendee now (attendeeOf 1 6) db)
      in db)"

text \<open>
  A fresh store, respectively the seeded tables, after two more calls:
  \<^verbatim>\<open>createEvent\<close> of the first seed event with \<^verbatim>\<open>hostId: 99\<close> (it becomes event 7;
  there is no user 99) and \<^verbatim>\<open>createAttendee({ userId: 99, eventId: 1 })\<close>.
\<close>

definition mem_example :: MemStorage where
  "mem_example =
     snd (mem_createAttendee 0 (attendeeOf 99 1)
            (snd (mem_createEvent 0 (seedEvent1 99) (new_MemStorage 0))))"

definition pg_example :: PgDb where
  "pg_example =
     snd (pg_createAttendee 0 (attendeeOf 99 1)
            (snd (pg_createEvent 0 (seedEvent1 99) (pg_seeded 0))))"

subsection \<open>The representation invariant of the event map\<close>

text \<open>
  A \<^verbatim>\<open>Map\<close> holds a key once, and \<^verbatim>\<open>MemStorage\<close> files every event under its own id.
\<close>

definition mem_wf :: "MemStorage \<Rightarrow> bool" where
  "mem_wf s =
     (distinct (map fst (MemStorage.events s)) \<and>
      list_all (\<lambda>(k, e). Event.id e = k) (MemStorage.events s))"

section \<open>Properties\<close>

subsection \<open>Auxiliary facts\<close>

lemma withAttendees_sel [simp]:
  "attendeesList (withAttendees e n l h) = l"
  "EventWithAttendees.attendees (withAttendees e n l h) = n"
  "host (withAttendees e n l h) = h"
  "Event.truncate (withAttendees e n l h) = e"
  by (simp_all add: withAttendees_def Event.defs EventWithAttendees.defs)


lemma first_filter_None: "first xs = None \<longleftrightarrow> xs = []"
  by (cases xs) (simp_all add: first_def)

lemma first_filter_Some: "first xs = Some x \<longleftrightarrow> (\<exists>ys. xs = x # ys)"
  by (cases xs) (auto simp add: first_def)

lemma pg_getFormattedAttendees_eq:
  "pg_getFormattedAttendees db e =
     List.map_filter (\<lambda>a. map_option userSummary (pg_getUser db (Attendee.userId a)))
       (pg_getEventAttendees db e)"
proof -
  have "(case xs of [] \<Rightarrow> None | u # _ \<Rightarrow> Some (userSummary u)) = map_option userSummary (first xs)"
    for xs :: "User list"
    by (cases xs) (simp_all add: first_def)
  then show ?thesis
    by (simp add: pg_getFormattedAttendees_def pg_getEventAttendees_def pg_getUser_def)
qed
subsection \<open>Reading one event\<close>



subsection \<open>Listing events whose host is missing\<close>

lemma filter_key_distinct:
  "distinct (map f xs) \<Longrightarrow> x \<in> set xs \<Longrightarrow> filter (\<lambda>y. f y = f x) xs = [x]"
proof (induction xs)
  case Nil
  then show ?case by simp
next
  case (Cons a xs)
  show ?case
  proof (cases "a = x")
    case True
    with Cons.prems have "f x \<notin> f ` set xs" by simp
    then have "\<forall>y\<in>set xs. f y \<noteq> f x" by (metis image_eqI)
    then have "filter (\<lambda>y. f y = f x) xs = []" by (simp add: filter_empty_conv)
    with True show ?thesis by simp
  next
    case False
    with Cons.prems have "x \<in> set xs" "f a \<noteq> f x" by auto
    with Cons show ?thesis by simp
  qed
qed

lemma pg_withDetails_truncate [simp]: "Event.truncate (pg_withDetails db e) = e"
  by (simp add: pg_withDetails_def Let_def)

lemma pg_withDetails_unknown_host:
  "pg_getUser db (Event.hostId e) = None \<Longrightarrow>
   host (pg_withDetails db e) = \<lparr>UserSummary.id = 0, name = ''Unknown'', avatar = ''''\<rparr>"
  by (simp add: pg_withDetails_def pg_getUser_def first_filter_None Let_def unknownHost_def)

text \<open>
  C10. In \<^verbatim>\<open>PgStorage\<close>, an event row whose \<^verbatim>\<open>hostId\<close> resolves to no user is not
  dropped by \<^verbatim>\<open>getAllEvents\<close>, \<^verbatim>\<open>getEventsByCategory\<close> (of its category) and
  \<^verbatim>\<open>searchEvents\<close> (of a query that selects it): each result holds the event with the
  host \<^verbatim>\<open>{ id: 0, name: 'Unknown', avatar: '' }\<close>. \<^verbatim>\<open>getEvent\<close> of its id (ids being
  the primary key, of the 32-bit type of the column) returns \<^verbatim>\<open>undefined\<close>, and in no
  case the event. The witness below is a state in which both happen.
\<close>

theorem pg_lists_keep_event_with_unknown_host:
  "e \<in> set (PgDb.events db) \<and> pg_getUser db (Event.hostId e) = None \<longrightarrow>
     (\<exists>r \<in> set (pg_getAllEvents db).
        Event.truncate r = e \<and> host r = \<lparr>UserSummary.id = 0, name = ''Unknown'', avatar = ''''\<rparr>) \<and>
     (\<exists>r \<in> set (pg_getEventsByCategory db (Event.categoryId e)).
        Event.truncate r = e \<and> host r = \<lparr>UserSummary.id = 0, name = ''Unknown'', avatar = ''''\<rparr>) \<and>
     (like (''%'' @ q @ ''%'') (Event.title e) \<or> like (''%'' @ q @ ''%'') (Event.description e) \<or>
      like (''%'' @ q @ ''%'') (Event.location e) \<longrightarrow>
        (\<exists>r \<in> set (pg_searchEvents db q).
           Event.truncate r = e \<and> host r = \<lparr>UserSummary.id = 0, name = ''Unknown'', avatar = ''''\<rparr>)) \<and>
     (distinct (map Event.id (PgDb.events db)) \<and> int4 (Event.id e)
        \<longrightarrow> pg_getEvent db (Event.id e) = Inr None) \<and>
     (distinct (map Event.id (PgDb.events db))
        \<longrightarrow> (\<forall>r. pg_getEvent db (Event.id e) \<noteq> Inr (Some r)))"
proof (intro impI, elim conjE)
  assume e: "e \<in> set (PgDb.events db)" and h: "pg_getUser db (Event.hostId e) = None"
  let ?r = "pg_withDetails db e"
  have r: "Event.truncate ?r = e \<and> host ?r = \<lparr>UserSummary.id = 0, name = ''Unknown'', avatar = ''''\<rparr>"
    using h by (simp add: pg_withDetails_unknown_host)
  have all: "?r \<in> set (pg_getAllEvents db)"
    using e by (simp add: pg_getAllEvents_def)
  have cat: "?r \<in> set (pg_getEventsByCategory db (Event.categoryId e))"
    using e by (simp add: pg_getEventsByCategory_def pg_getAllEvents_def)
  have search: "?r \<in> set (pg_searchEvents db q)"
    if "like (''%'' @ q @ ''%'') (Event.title e) \<or> like (''%'' @ q @ ''%'') (Event.description e) \<or>
        like (''%'' @ q @ ''%'') (Event.location e)"
    using e that by (auto simp add: pg_searchEvents_def Let_def)
  have row: "filter (\<lambda>x. Event.id x = Event.id e) (PgDb.events db) = [e]"
    if "distinct (map Event.id (PgDb.events db))"
    using that e by (rule filter_key_distinct)
  have get: "pg_getEvent db (Event.id e) = Inr None"
    if "distinct (map Event.id (PgDb.events db)) \<and> int4 (Event.id e)"
    using that h row by (simp add: pg_getEvent_def pg_getUser_def first_filter_None Let_def)
  have never: "\<forall>r. pg_getEvent db (Event.id e) \<noteq> Inr (Some r)"
    if "distinct (map Event.id (PgDb.events db))"
    using that h row by (simp add: pg_getEvent_def pg_getUser_def first_filter_None Let_def)
  from r all cat search get never
  show "(\<exists>r \<in> set (pg_getAllEvents db).
        Event.truncate r = e \<and> host r = \<lparr>UserSummary.id = 0, name = ''Unknown'', avatar = ''''\<rparr>) \<and>
     (\<exists>r \<in> set (pg_getEventsByCategory db (Event.categoryId e)).
        Event.truncate r = e \<and> host r = \<lparr>UserSummary.id = 0, name = ''Unknown'', avatar = ''''\<rparr>) \<and>
     (like (''%'' @ q @ ''%'') (Event.title e) \<or> like (''%'' @ q @ ''%'') (Event.description e) \<or>
      like (''%'' @ q @ ''%'') (Event.location e) \<longrightarrow>
        (\<exists>r \<in> set (pg_searchEvents db q).
           Event.truncate r = e \<and> host r = \<lparr>UserSummary.id = 0, name = ''Unknown'', avatar = ''''\<rparr>)) \<and>
     (distinct (map Event.id (PgDb.events db)) \<and> int4 (Event.id e)
        \<longrightarrow> pg_getEvent db (Event.id e) = Inr None) \<and>
     (distinct (map Event.id (PgDb.events db))
        \<longrightarrow> (\<forall>r. pg_getEvent db (Event.id e) \<noteq> Inr (Some r)))"
    by blast
qed

theorem pg_lists_keep_event_with_unknown_host_witness:
  "\<exists>e \<in> set (PgDb.events pg_example).
     Event.id e = 7 \<and> pg_getUser pg_example (Event.hostId e) = None \<and>
     like (''%'' @ ''Music'' @ ''%'') (Event.title e) \<and>
     distinct (map Event.id (PgDb.events pg_example)) \<and>
     (\<exists>r \<in> set (pg_getAllEvents pg_example).
        Event.truncate r = e \<and> host r = \<lparr>UserSummary.id = 0, name = ''Unknown'', avatar = ''''\<rparr>) \<and>
     (\<exists>r \<in> set (pg_getEventsByCategory pg_example ''Music'').
        Event.truncate r = e \<and> host r = \<lparr>UserSummary.id = 0, name = ''Unknown'', avatar = ''''\<rparr>) \<and>
     (\<exists>r \<in> set (pg_searchEvents pg_example ''Music'').
        Event.truncate r = e \<and> host r = \<lparr>UserSummary.id = 0, name = ''Unknown'', avatar = ''''\<rparr>) \<and>
     int4 7 \<and> pg_getEvent pg_example 7 = Inr None"
proof -
  have ex: "list_ex (\<lambda>e. Event.id e = 7 \<and> pg_getUser pg_example (Event.hostId e) = None \<and>
              like (''%'' @ ''Music'' @ ''%'') (Event.title e) \<and> Event.categoryId e = ''Music'')
            (PgDb.events pg_example)"
    by code_simp
  have d: "distinct (map Event.id (PgDb.events pg_example))"
    by code_simp
  from ex obtain e where e: "e \<in> set (PgDb.events pg_example)" "Event.id e = 7"
    "pg_getUser pg_example (Event.hostId e) = None"
    "like (''%'' @ ''Music'' @ ''%'') (Event.title e)" "Event.categoryId e = ''Music''"
    by (auto simp add: list_ex_iff)
  have r: "int4 7"
    by (simp add: int4_def)
  from pg_lists_keep_event_with_unknown_host [of e pg_example "''Music''"] e d r
  show ?thesis
    by (intro bexI [of _ e]) auto
qed
subsection \<open>Creating an event and reading it back\<close>

lemma mem_createEvent_fields:
  assumes "mem_createEvent now p s = (e, s')"
  shows "Event.id e = MemStorage.eventId s \<and>
         Event.title e = InsertEvent.title p \<and>
         Event.description e = InsertEvent.description p \<and>
         Event.location e = InsertEvent.location p \<and>
         Event.address e = InsertEvent.address p \<and>
         Event.latitude e = InsertEvent.latitude p \<and>
         Event.longitude e = InsertEvent.longitude p \<and>
         Event.date e = InsertEvent.date p \<and>
         Event.endDate e = InsertEvent.endDate p \<and>
         Event.categoryId e = InsertEvent.categoryId p \<and>
         Event.price e = InsertEvent.price p \<and>
         Event.isFree e = (InsertEvent.isFree p = Some True) \<and>
         Event.imageUrl e = InsertEvent.imageUrl p \<and>
         Event.hostId e = InsertEvent.hostId p \<and>
         Event.isOnline e = (InsertEvent.isOnline p = Some True) \<and>
         Event.createdAt e = now"
  using assms by (auto simp add: mem_createEvent_def Let_def split: option.splits)

lemma mem_createEvent_state:
  assumes "mem_createEvent now p s = (e, s')"
  shows "map_of (MemStorage.events s') (Event.id e) = Some e"
    and "MemStorage.users s' = MemStorage.users s"
    and "MemStorage.attendees s' = MemStorage.attendees s"
  using assms by (auto simp add: mem_createEvent_def Let_def update_conv')

lemma pg_createEvent_fields:
  assumes "pg_createEvent now p db = (Inr e, db')"
  shows "Event.id e = PgDb.events_id_seq db \<and>
         Event.title e = InsertEvent.title p \<and>
         Event.description e = InsertEvent.description p \<and>
         Event.location e = InsertEvent.location p \<and>
         Event.address e = InsertEvent.address p \<and>
         Event.latitude e = InsertEvent.latitude p \<and>
         Event.longitude e = InsertEvent.longitude p \<and>
         Event.date e = InsertEvent.date p \<and>
         Event.endDate e = InsertEvent.endDate p \<and>
         Event.categoryId e = InsertEvent.categoryId p \<and>
         Event.price e = InsertEvent.price p \<and>
         Event.isFree e = (InsertEvent.isFree p = Some True) \<and>
         Event.imageUrl e = InsertEvent.imageUrl p \<and>
         Event.hostId e = InsertEvent.hostId p \<and>
         Event.isOnline e = (InsertEvent.isOnline p = Some True) \<and>
         Event.createdAt e = now"
  using assms by (auto simp add: pg_createEvent_def Let_def split: option.splits if_splits)

lemma pg_createEvent_state:
  assumes "pg_createEvent now p db = (Inr e, db')"
  shows "filter (\<lambda>x. Event.id x = Event.id e) (PgDb.events db') = [e]"
    and "PgDb.users db' = PgDb.users db"
    and "PgDb.attendees db' = PgDb.attendees db"
    and "int4 (Event.id e)"
proof -
  let ?i = "PgDb.events_id_seq db"
  from assms have fresh: "\<not> list_ex (\<lambda>x. Event.id x = ?i) (PgDb.events db)"
    by (auto simp add: pg_createEvent_def Let_def split: if_splits)
  then have "filter (\<lambda>x. Event.id x = ?i) (PgDb.events db) = []"
    by (simp add: list_ex_iff filter_empty_conv)
  moreover from assms fresh have "Event.id e = ?i" "PgDb.events db' = PgDb.events db @ [e]"
    by (auto simp add: pg_createEvent_def Let_def split: if_splits)
  ultimately show "filter (\<lambda>x. Event.id x = Event.id e) (PgDb.events db') = [e]"
    by simp
  from assms show "PgDb.users db' = PgDb.users db" "PgDb.attendees db' = PgDb.attendees db"
    "int4 (Event.id e)"
    by (auto simp add: pg_createEvent_def Let_def split: if_splits)
qed

text \<open>
  C5. Round trip. Let the payload's \<^verbatim>\<open>hostId\<close> be the id of a user, let
  \<^verbatim>\<open>createEvent(payload)\<close> return the event \<open>e\<close>, and let no attendee row carry the id
  of \<open>e\<close>. Then \<^verbatim>\<open>getEvent\<close> of that id, in the state after the call, returns an
  \<^verbatim>\<open>EventWithAttendees\<close> whose event part is \<open>e\<close>, with \<^verbatim>\<open>attendees\<close> 0 and
  \<^verbatim>\<open>attendeesList\<close> empty, and each field of the payload is read back as it was given
  (an absent \<^verbatim>\<open>isFree\<close> or \<^verbatim>\<open>isOnline\<close> as \<^verbatim>\<open>false\<close>). This holds of
  \<^verbatim>\<open>MemStorage\<close> and of \<^verbatim>\<open>PgStorage\<close>.
\<close>

theorem createEvent_getEvent_roundtrip:
  "(\<forall>h e s'. mem_getUser s (InsertEvent.hostId p) = Some h \<and>
       mem_createEvent now p s = (e, s') \<and> mem_getEventAttendees s (Event.id e) = []
       \<longrightarrow> (\<exists>r. mem_getEvent s' (Event.id e) = Some r \<and> Event.truncate r = e \<and>
                EventWithAttendees.attendees r = 0 \<and> attendeesList r = [] \<and>
                Event.title r = InsertEvent.title p \<and>
                Event.description r = InsertEvent.description p \<and>
                Event.location r = InsertEvent.location p \<and>
                Event.address r = InsertEvent.address p \<and>
                Event.latitude r = InsertEvent.latitude p \<and>
                Event.longitude r = InsertEvent.longitude p \<and>
                Event.date r = InsertEvent.date p \<and>
                Event.endDate r = InsertEvent.endDate p \<and>
                Event.categoryId r = InsertEvent.categoryId p \<and>
                Event.price r = InsertEvent.price p \<and>
                Event.isFree r = (InsertEvent.isFree p = Some True) \<and>
                Event.imageUrl r = InsertEvent.imageUrl p \<and>
                Event.hostId r = InsertEvent.hostId p \<and>
                Event.isOnline r = (InsertEvent.isOnline p = Some True))) \<and>
   (\<forall>h e db'. pg_getUser db (InsertEvent.hostId p) = Some h \<and>
       pg_createEvent now p db = (Inr e, db') \<and> pg_getEventAttendees db (Event.id e) = []
       \<longrightarrow> (\<exists>r. pg_getEvent db' (Event.id e) = Inr (Some r) \<and> Event.truncate r = e \<and>
                EventWithAttendees.attendees r = 0 \<and> attendeesList r = [] \<and>
                Event.title r = InsertEvent.title p \<and>
                Event.description r = InsertEvent.description p \<and>
                Event.location r = InsertEvent.location p \<and>
                Event.address r = InsertEvent.address p \<and>
                Event.latitude r = InsertEvent.latitude p \<and>
                Event.longitude r = InsertEvent.longitude p \<and>
                Event.date r = InsertEvent.date p \<and>
                Event.endDate r = InsertEvent.endDate p \<and>
                Event.categoryId r = InsertEvent.categoryId p \<and>
                Event.price r = InsertEvent.price p \<and>
                Event.isFree r = (InsertEvent.isFree p = Some True) \<and>
                Event.imageUrl r = InsertEvent.imageUrl p \<and>
                Event.hostId r = InsertEvent.hostId p \<and>
                Event.isOnline r = (InsertEvent.isOnline p = Some True)))"
proof (intro conjI allI impI; elim conjE)
  fix h e s'
  assume host: "mem_getUser s (InsertEvent.hostId p) = Some h"
    and create: "mem_createEvent now p s = (e, s')"
    and rows: "mem_getEventAttendees s (Event.id e) = []"
  note f = mem_createEvent_fields [OF create, THEN conjunct2]
  note st = mem_createEvent_state [OF create]
  let ?r = "withAttendees e 0 [] (userSummary h)"
  from host f st have "map_of (MemStorage.users s') (Event.hostId e) = Some h"
    by (simp add: mem_getUser_def)
  moreover from rows st
  have "filter (\<lambda>a. Attendee.eventId a = Event.id e) (map snd (MemStorage.attendees s')) = []"
    by (simp add: mem_getEventAttendees_def)
  ultimately have get: "mem_getEvent s' (Event.id e) = Some ?r"
    using st(1) by (simp add: mem_getEvent_def)
  have sel: "Event.title ?r = Event.title e" "Event.description ?r = Event.description e"
    "Event.location ?r = Event.location e" "Event.address ?r = Event.address e"
    "Event.latitude ?r = Event.latitude e" "Event.longitude ?r = Event.longitude e"
    "Event.date ?r = Event.date e" "Event.endDate ?r = Event.endDate e"
    "Event.categoryId ?r = Event.categoryId e" "Event.price ?r = Event.price e"
    "Event.isFree ?r = Event.isFree e" "Event.imageUrl ?r = Event.imageUrl e"
    "Event.hostId ?r = Event.hostId e" "Event.isOnline ?r = Event.isOnline e"
    by (simp_all add: withAttendees_def Event.defs)
  show "\<exists>r. mem_getEvent s' (Event.id e) = Some r \<and> Event.truncate r = e \<and>
                EventWithAttendees.attendees r = 0 \<and> attendeesList r = [] \<and>
                Event.title r = InsertEvent.title p \<and>
                Event.description r = InsertEvent.description p \<and>
                Event.location r = InsertEvent.location p \<and>
                Event.address r = InsertEvent.address p \<and>
                Event.latitude r = InsertEvent.latitude p \<and>
                Event.longitude r = InsertEvent.longitude p \<and>
                Event.date r = InsertEvent.date p \<and>
                Event.endDate r = InsertEvent.endDate p \<and>
                Event.categoryId r = InsertEvent.categoryId p \<and>
                Event.price r = InsertEvent.price p \<and>
                Event.isFree r = (InsertEvent.isFree p = Some True) \<and>
                Event.imageUrl r = InsertEvent.imageUrl p \<and>
                Event.hostId r = InsertEvent.hostId p \<and>
                Event.isOnline r = (InsertEvent.isOnline p = Some True)"
    by (rule exI [of _ ?r]) (simp only: get sel f withAttendees_sel simp_thms)
next
  fix h e db'
  assume host: "pg_getUser db (InsertEvent.hostId p) = Some h"
    and create: "pg_createEvent now p db = (Inr e, db')"
    and rows: "pg_getEventAttendees db (Event.id e) = []"
  note f = pg_createEvent_fields [OF create, THEN conjunct2]
  note st = pg_createEvent_state [OF create]
  let ?r = "withAttendees e 0 [] (userSummary h)"
  from host f st obtain us where "filter (\<lambda>u. User.id u = Event.hostId e) (PgDb.users db') = h # us"
    by (auto simp add: pg_getUser_def first_filter_Some)
  moreover from rows st have "pg_getFormattedAttendees db' (Event.id e) = []"
    by (simp add: pg_getFormattedAttendees_eq pg_getEventAttendees_def)
  ultimately have get: "pg_getEvent db' (Event.id e) = Inr (Some ?r)"
    using st(1) st(4) by (simp add: pg_getEvent_def)
  have sel: "Event.title ?r = Event.title e" "Event.description ?r = Event.description e"
    "Event.location ?r = Event.location e" "Event.address ?r = Event.address e"
    "Event.latitude ?r = Event.latitude e" "Event.longitude ?r = Event.longitude e"
    "Event.date ?r = Event.date e" "Event.endDate ?r = Event.endDate e"
    "Event.categoryId ?r = Event.categoryId e" "Event.price ?r = Event.price e"
    "Event.isFree ?r = Event.isFree e" "Event.imageUrl ?r = Event.imageUrl e"
    "Event.hostId ?r = Event.hostId e" "Event.isOnline ?r = Event.isOnline e"
    by (simp_all add: withAttendees_def Event.defs)
  show "\<exists>r. pg_getEvent db' (Event.id e) = Inr (Some r) \<and> Event.truncate r = e \<and>
                EventWithAttendees.attendees r = 0 \<and> attendeesList r = [] \<and>
                Event.title r = InsertEvent.title p \<and>
                Event.description r = InsertEvent.description p \<and>
                Event.location r = InsertEvent.location p \<and>
                Event.address r = InsertEvent.address p \<and>
                Event.latitude r = InsertEvent.latitude p \<and>
                Event.longitude r = InsertEvent.longitude p \<and>
                Event.date r = InsertEvent.date p \<and>
                Event.endDate r = InsertEvent.endDate p \<and>
                Event.categoryId r = InsertEvent.categoryId p \<and>
                Event.price r = InsertEvent.price p \<and>
                Event.isFree r = (InsertEvent.isFree p = Some True) \<and>
                Event.imageUrl r = InsertEvent.imageUrl p \<and>
                Event.hostId r = InsertEvent.hostId p \<and>
                Event.isOnline r = (InsertEvent.isOnline p = Some True)"
    by (rule exI [of _ ?r]) (simp only: get sel f withAttendees_sel simp_thms)
qed

theorem createEvent_getEvent_roundtrip_witness:
  "mem_getUser (new_MemStorage 0) (InsertEvent.hostId (seedEvent2 1)) \<noteq> None \<and>
   Event.id (fst (mem_createEvent 5 (seedEvent2 1) (new_MemStorage 0))) = 7 \<and>
   mem_getEventAttendees (new_MemStorage 0) 7 = [] \<and>
   (\<exists>r. mem_getEvent (snd (mem_createEvent 5 (seedEvent2 1) (new_MemStorage 0))) 7 = Some r \<and>
        Event.truncate r = fst (mem_createEvent 5 (seedEvent2 1) (new_MemStorage 0)) \<and>
        EventWithAttendees.attendees r = 0 \<and> attendeesList r = [] \<and>
        Event.title r = ''Annual Tech Conference'' \<and> Event.price r = Some 149) \<and>
   pg_getUser (pg_seeded 0) (InsertEvent.hostId (seedEvent2 1)) \<noteq> None \<and>
   map_sum (\<lambda>x. x) Event.id (fst (pg_createEvent 5 (seedEvent2 1) (pg_seeded 0))) = Inr 7 \<and>
   pg_getEventAttendees (pg_seeded 0) 7 = [] \<and>
   (\<exists>r. pg_getEvent (snd (pg_createEvent 5 (seedEvent2 1) (pg_seeded 0))) 7 = Inr (Some r) \<and>
        Inr (Event.truncate r) = fst (pg_createEvent 5 (seedEvent2 1) (pg_seeded 0)) \<and>
        EventWithAttendees.attendees r = 0 \<and> attendeesList r = [] \<and>
        Event.title r = ''Annual Tech Conference'' \<and> Event.price r = Some 149)"
proof -
  let ?p = "seedEvent2 1"
  let ?s = "new_MemStorage 0"
  let ?db = "pg_seeded 0"
  have p: "InsertEvent.hostId ?p = 1" "InsertEvent.title ?p = ''Annual Tech Conference''"
    "InsertEvent.price ?p = Some 149"
    by (simp_all add: seedEvent2_def)
  have mu: "mem_getUser ?s 1 \<noteq> None"
    by code_simp
  have mi: "Event.id (fst (mem_createEvent 5 ?p ?s)) = 7"
    by code_simp
  have mr: "mem_getEventAttendees ?s 7 = []"
    by code_simp
  have pu: "pg_getUser ?db 1 \<noteq> None"
    by code_simp
  have pi: "map_sum (\<lambda>x. x) Event.id (fst (pg_createEvent 5 ?p ?db)) = Inr 7"
    by code_simp
  have pr: "pg_getEventAttendees ?db 7 = []"
    by code_simp
  from mu obtain h where h: "mem_getUser ?s (InsertEvent.hostId ?p) = Some h"
    by (auto simp add: p)
  obtain e s' where c: "mem_createEvent 5 ?p ?s = (e, s')"
    by (cases "mem_createEvent 5 ?p ?s")
  with mi have i: "Event.id e = 7" by simp
  from createEvent_getEvent_roundtrip [of ?s ?p 5] h c mr i
  have m: "\<exists>r. mem_getEvent s' 7 = Some r \<and> Event.truncate r = e \<and>
        EventWithAttendees.attendees r = 0 \<and> attendeesList r = [] \<and>
        Event.title r = ''Annual Tech Conference'' \<and> Event.price r = Some 149"
    by (simp add: p) blast
  from pu obtain g where g: "pg_getUser ?db (InsertEvent.hostId ?p) = Some g"
    by (auto simp add: p)
  from pi obtain e' db' where c': "pg_createEvent 5 ?p ?db = (Inr e', db')"
    by (cases "pg_createEvent 5 ?p ?db"; cases "fst (pg_createEvent 5 ?p ?db)") auto
  with pi have i': "Event.id e' = 7" by simp
  from createEvent_getEvent_roundtrip [of _ ?p 5 ?db] g c' pr i'
  have q: "\<exists>r. pg_getEvent db' 7 = Inr (Some r) \<and> Event.truncate r = e' \<and>
        EventWithAttendees.attendees r = 0 \<and> attendeesList r = [] \<and>
        Event.title r = ''Annual Tech Conference'' \<and> Event.price r = Some 149"
    by (simp add: p) blast
  from mu mi mr m pu pi pr q show ?thesis
    by (simp add: p c c')
qed
subsection \<open>Registering twice\<close>

lemma pg_isUserAttending_iff:
  "pg_isUserAttending db u e \<longleftrightarrow>
     (\<exists>a \<in> set (PgDb.attendees db). Attendee.userId a = u \<and> Attendee.eventId a = e)"
  by (auto simp add: pg_isUserAttending_def Let_def filter_empty_conv)

lemma pg_createAttendee_attending:
  assumes "pg_createAttendee now (attendeeOf u e) db = (Inr a, db')"
  shows "pg_isUserAttending db' u e"
  using assms
  by (auto simp add: pg_createAttendee_def pg_isUserAttending_iff attendeeOf_def Let_def
      split: if_splits)

text \<open>
  C8. \<^verbatim>\<open>POST /api/events/:id/attend\<close> by an authenticated user (the session holds a
  user id that is not 0) for an event the user is already registered for is answered with
  status 400 and the message "You are already registered for this event", and the
  database is left as it was: no attendee row is added. In particular a registration
  that was answered with 201 is answered with 400 when it is sent again.
\<close>

theorem attend_twice_rejected:
  "(Session.userId session = Some u \<and> u \<noteq> 0 \<and> parseInt idParam = Some e \<and>
    pg_isUserAttending db u e
    \<longrightarrow> post_events_attend now db session idParam =
          (\<lparr>status = 400, body = MessageBody ''You are already registered for this event''\<rparr>, db)) \<and>
   (\<forall>r db1. post_events_attend now db session idParam = (r, db1) \<and> status r = 201
    \<longrightarrow> post_events_attend now' db1 session idParam =
          (\<lparr>status = 400, body = MessageBody ''You are already registered for this event''\<rparr>, db1))"
proof (intro conjI allI impI; elim conjE)
  assume "Session.userId session = Some u" "u \<noteq> 0" "parseInt idParam = Some e"
    "pg_isUserAttending db u e"
  then show "post_events_attend now db session idParam =
          (\<lparr>status = 400, body = MessageBody ''You are already registered for this event''\<rparr>, db)"
    by (simp add: post_events_attend_def)
next
  fix r db1
  assume post: "post_events_attend now db session idParam = (r, db1)" and ok: "status r = 201"
  from post ok obtain u' e' a where s: "Session.userId session = Some u'" "u' \<noteq> 0"
    "parseInt idParam = Some e'" and c: "pg_createAttendee now (attendeeOf u' e') db = (Inr a, db1)"
    by (auto simp add: post_events_attend_def split: option.splits if_splits prod.splits sum.splits)
  from c have "pg_isUserAttending db1 u' e'"
    by (rule pg_createAttendee_attending)
  with s show "post_events_attend now' db1 session idParam =
          (\<lparr>status = 400, body = MessageBody ''You are already registered for this event''\<rparr>, db1)"
    by (simp add: post_events_attend_def)
qed

theorem attend_twice_rejected_witness:
  "Session.userId \<lparr>Session.user = None, userId = Some 1\<rparr> = Some 1 \<and> (1::int) \<noteq> 0 \<and>
   parseInt ''2'' = Some 2 \<and> pg_isUserAttending (pg_seeded 0) 1 2 \<and>
   post_events_attend 5 (pg_seeded 0) \<lparr>Session.user = None, userId = Some 1\<rparr> ''2'' =
     (\<lparr>status = 400, body = MessageBody ''You are already registered for this event''\<rparr>, pg_seeded 0) \<and>
   status (fst (post_events_attend 5 (pg_seeded 0) \<lparr>Session.user = None, userId = Some 1\<rparr> ''4'')) = 201 \<and>
   post_events_attend 6
       (snd (post_events_attend 5 (pg_seeded 0) \<lparr>Session.user = None, userId = Some 1\<rparr> ''4''))
       \<lparr>Session.user = None, userId = Some 1\<rparr> ''4'' =
     (\<lparr>status = 400, body = MessageBody ''You are already registered for this event''\<rparr>,
      snd (post_events_attend 5 (pg_seeded 0) \<lparr>Session.user = None, userId = Some 1\<rparr> ''4''))"
proof -
  let ?sess = "\<lparr>Session.user = None, userId = Some 1\<rparr>"
  have a: "parseInt ''2'' = Some 2"
    by code_simp
  have b: "pg_isUserAttending (pg_seeded 0) 1 2"
    by code_simp
  have c: "status (fst (post_events_attend 5 (pg_seeded 0) ?sess ''4'')) = 201"
    by code_simp
  obtain r db1 where d: "post_events_attend 5 (pg_seeded 0) ?sess ''4'' = (r, db1)"
    by (cases "post_events_attend 5 (pg_seeded 0) ?sess ''4''")
  note T = attend_twice_rejected [of ?sess 1 _ _ "pg_seeded 0" 5 6]
  from T [of "''2''" 2] a b
  have first: "post_events_attend 5 (pg_seeded 0) ?sess ''2'' =
     (\<lparr>status = 400, body = MessageBody ''You are already registered for this event''\<rparr>, pg_seeded 0)"
    by simp
  from T [of "''4''"] c d
  have second: "post_events_attend 6 db1 ?sess ''4'' =
     (\<lparr>status = 400, body = MessageBody ''You are already registered for this event''\<rparr>, db1)"
    by simp
  from a b c d first second show ?thesis
    by simp
qed
subsection \<open>Failed logins\<close>


subsection \<open>The distance helper at its limits\<close>

text \<open>
  C6. The claim: for all valid coordinate pairs the distance from \<open>a\<close> to \<open>b\<close> equals the
  distance from \<open>b\<close> to \<open>a\<close>, and the distance from a point to itself is 0, in both
  \<^verbatim>\<open>calculateDistance\<close> helpers. Both helpers compute the term \<open>a\<close> of the haversine
  formula in floating point and take \<^verbatim>\<open>Math.sqrt(1 - a)\<close> without bounding \<open>a\<close> by 1. For
  points that lie opposite each other on the globe the exact value of \<open>a\<close> is 1, and the
  rounded one can exceed it: for (-82, -180) and (82, 0) double precision gives
  1.0000000000000002. Then \<^verbatim>\<open>1 - a\<close> is negative, its square root is \<^verbatim>\<open>NaN\<close>, and
  \<^verbatim>\<open>NaN\<close> passes through \<^verbatim>\<open>Math.atan2\<close>, the two products and \<^verbatim>\<open>toFixed\<close>: the helper
  returns \<^verbatim>\<open>NaN\<close> for either order of the two points, and \<^verbatim>\<open>NaN == NaN\<close> is false. The
  two lemmas below are that path, for any floating-point operations that behave so, and
  its effect on \<^verbatim>\<open>getEventsNearLocation\<close>: the event is left out whatever the bound.
\<close>

lemma calculateDistance_NaN:
  assumes root: "fsqrt F (fsub F (Num 1)
           (fadd F
              (fmul F (fsin F (fdiv F (deg2rad F (fsub F lat2 lat1)) (Num 2)))
                      (fsin F (fdiv F (deg2rad F (fsub F lat2 lat1)) (Num 2))))
              (fmul F
                 (fmul F
                    (fmul F (fcos F (deg2rad F lat1)) (fcos F (deg2rad F lat2)))
                    (fsin F (fdiv F (deg2rad F (fsub F lon2 lon1)) (Num 2))))
                 (fsin F (fdiv F (deg2rad F (fsub F lon2 lon1)) (Num 2)))))) = NaN"
    and atan2: "\<And>y. fatan2 F y NaN = NaN"
    and mul: "\<And>x. fmul F x NaN = NaN"
    and fixed: "toFixed1 F NaN = NaN"
  shows "mem_calculateDistance F lat1 lon1 lat2 lon2 = NaN"
    and "pg_calculateDistance F lat1 lon1 lat2 lon2 = NaN"
  by (simp_all add: mem_calculateDistance_def pg_calculateDistance_def Let_def root atan2 mul fixed)

lemma nearLocation_drops_NaN:
  assumes "calculateDistance lat lng (Event.latitude e) (Event.longitude e) = NaN"
  shows "e\<lparr>Event.distanceInMiles := Some NaN\<rparr> \<notin> set (nearLocation calculateDistance lat lng distance [e])"
    and "nearLocation calculateDistance lat lng distance [e] = []"
  using assms by (simp_all add: nearLocation_def lessEq_def)
subsection \<open>Deleting an event\<close>

lemma pg_deleteEvent_spec:
  "fst (pg_deleteEvent db i) = (\<exists>e \<in> set (PgDb.events db). Event.id e = i)"
  "PgDb.events (snd (pg_deleteEvent db i)) = filter (\<lambda>e. Event.id e \<noteq> i) (PgDb.events db)"
  "PgDb.attendees (snd (pg_deleteEvent db i)) =
     filter (\<lambda>a. Attendee.eventId a \<noteq> i) (PgDb.attendees db)"
  "pg_getEventAttendees (snd (pg_deleteEvent db i)) i = []"
  by (auto simp add: pg_deleteEvent_def pg_getEventAttendees_def Let_def filter_empty_conv)

lemma pg_deleteEvent_getEvent:
  "int4 i \<Longrightarrow> pg_getEvent (snd (pg_deleteEvent db i)) i = Inr None"
  by (auto simp add: pg_deleteEvent_def pg_getEvent_def Let_def filter_empty_conv)

lemma mem_deleteEvent_attendees:
  "mem_getEventAttendees (snd (mem_deleteEvent s i)) j = mem_getEventAttendees s j"
  by (simp add: mem_deleteEvent_def mem_getEventAttendees_def)

text \<open>
  C1. The claim: \<^verbatim>\<open>deleteEvent(id)\<close> removes the attendee rows of the event and then the
  event, in both stores, so that \<^verbatim>\<open>getEventAttendees(id)\<close> is empty afterwards.
  \<^verbatim>\<open>PgStorage.deleteEvent\<close> does so in every state (\<open>pg_deleteEvent_spec\<close>).
  \<^verbatim>\<open>MemStorage.deleteEvent\<close> only removes the event and leaves every attendee row
  (\<open>mem_deleteEvent_attendees\<close>). The evaluation below is on the freshly seeded stores:
  after \<^verbatim>\<open>deleteEvent(3)\<close> has returned \<^verbatim>\<open>true\<close>, the \<^verbatim>\<open>MemStorage\<close> still returns the
  two attendee rows of event 3, of users 1 and 2, and the \<^verbatim>\<open>PgStorage\<close> returns none.
\<close>

theorem mem_deleteEvent_keeps_attendees_eval:
  "fst (mem_deleteEvent (new_MemStorage 0) 3) = True \<and>
   mem_getEvent (snd (mem_deleteEvent (new_MemStorage 0) 3)) 3 = None \<and>
   map Attendee.userId (mem_getEventAttendees (snd (mem_deleteEvent (new_MemStorage 0) 3)) 3) = [1, 2] \<and>
   fst (pg_deleteEvent (pg_seeded 0) 3) = True \<and>
   pg_getEventAttendees (snd (pg_deleteEvent (pg_seeded 0) 3)) 3 = []"
proof -
  have "fst (mem_deleteEvent (new_MemStorage 0) 3) = True"
    by code_simp
  moreover have "mem_getEvent (snd (mem_deleteEvent (new_MemStorage 0) 3)) 3 = None"
    by code_simp
  moreover have "map Attendee.userId
      (mem_getEventAttendees (snd (mem_deleteEvent (new_MemStorage 0) 3)) 3) = [1, 2]"
    by code_simp
  moreover have "fst (pg_deleteEvent (pg_seeded 0) 3) = True"
    by code_simp
  moreover have "pg_getEventAttendees (snd (pg_deleteEvent (pg_seeded 0) 3)) 3 = []"
    by code_simp
  ultimately show ?thesis
    by blast
qed
subsection \<open>Searching\<close>

lemma startsWith_iff: "startsWith s q \<longleftrightarrow> (\<exists>t. s = q @ t)"
  by (induction s q rule: startsWith.induct) auto

lemma includesStr_iff: "includesStr s q \<longleftrightarrow> (\<exists>p t. s = p @ q @ t)"
proof (induction s)
  case Nil
  then show ?case by simp
next
  case (Cons c cs)
  have "(\<exists>p t. c # cs = p @ q @ t) \<longleftrightarrow> (\<exists>t. c # cs = q @ t) \<or> (\<exists>p t. cs = p @ q @ t)"
  proof
    assume "\<exists>p t. c # cs = p @ q @ t"
    then obtain p t where pt: "c # cs = p @ q @ t" by blast
    show "(\<exists>t. c # cs = q @ t) \<or> (\<exists>p t. cs = p @ q @ t)"
    proof (cases p)
      case Nil
      with pt show ?thesis by auto
    next
      case (Cons a p')
      with pt have "cs = p' @ q @ t" by simp
      then show ?thesis by blast
    qed
  next
    assume "(\<exists>t. c # cs = q @ t) \<or> (\<exists>p t. cs = p @ q @ t)"
    then show "\<exists>p t. c # cs = p @ q @ t"
    proof
      assume "\<exists>t. c # cs = q @ t"
      then obtain t where "c # cs = [] @ q @ t" by auto
      then show ?thesis by blast
    next
      assume "\<exists>p t. cs = p @ q @ t"
      then obtain p t where "c # cs = (c # p) @ q @ t" by auto
      then show ?thesis by blast
    qed
  qed
  with Cons show ?case
    by (simp add: startsWith_iff)
qed

lemma mem_searchEvents_spec:
  "mem_searchEvents s query =
     map (\<lambda>event. mem_getEvent s (Event.id event))
       (filter (\<lambda>event.
                  (\<exists>p t. toLowerCase (Event.title event) = p @ toLowerCase query @ t) \<or>
                  (\<exists>p t. toLowerCase (Event.description event) = p @ toLowerCase query @ t) \<or>
                  (\<exists>p t. toLowerCase (Event.location event) = p @ toLowerCase query @ t))
          (map snd (MemStorage.events s)))"
  by (simp add: mem_searchEvents_def Let_def includesStr_iff)

lemma like_percent: "like (CHR ''%'' # ps) t \<longleftrightarrow> (\<exists>p r. t = p @ r \<and> like ps r)"
proof (induction t)
  case Nil
  then show ?case by simp
next
  case (Cons c cs)
  have "(\<exists>p r. c # cs = p @ r \<and> like ps r) \<longleftrightarrow> like ps (c # cs) \<or> (\<exists>p r. cs = p @ r \<and> like ps r)"
  proof
    assume "\<exists>p r. c # cs = p @ r \<and> like ps r"
    then obtain p r where pr: "c # cs = p @ r" "like ps r" by blast
    show "like ps (c # cs) \<or> (\<exists>p r. cs = p @ r \<and> like ps r)"
    proof (cases p)
      case Nil
      with pr show ?thesis by simp
    next
      case (Cons a p')
      with pr have "cs = p' @ r" by simp
      with pr(2) show ?thesis by blast
    qed
  next
    assume "like ps (c # cs) \<or> (\<exists>p r. cs = p @ r \<and> like ps r)"
    then show "\<exists>p r. c # cs = p @ r \<and> like ps r"
    proof
      assume "like ps (c # cs)"
      then have "c # cs = [] @ (c # cs) \<and> like ps (c # cs)" by simp
      then show ?thesis by blast
    next
      assume "\<exists>p r. cs = p @ r \<and> like ps r"
      then obtain p r where "c # cs = (c # p) @ r \<and> like ps r" by auto
      then show ?thesis by blast
    qed
  qed
  with Cons show ?case
    by simp
qed

lemma like_literal:
  "set q \<inter> {CHR ''%'', CHR ''_'', CHR 0x5C} = {} \<Longrightarrow>
   like (q @ ps) t \<longleftrightarrow> (\<exists>r. t = q @ r \<and> like ps r)"
proof (induction q arbitrary: t)
  case Nil
  then show ?case by simp
next
  case (Cons c q)
  then have c: "c \<noteq> CHR ''%''" "c \<noteq> CHR ''_''" "c \<noteq> CHR 0x5C"
    and q: "set q \<inter> {CHR ''%'', CHR ''_'', CHR 0x5C} = {}"
    by auto
  show ?case
  proof (cases t)
    case Nil
    with c show ?thesis by simp
  next
    case (Cons a as)
    with c Cons.IH [OF q, of as] show ?thesis by auto
  qed
qed

lemma like_substring:
  assumes "set q \<inter> {CHR ''%'', CHR ''_'', CHR 0x5C} = {}"
  shows "like (''%'' @ q @ ''%'') t \<longleftrightarrow> (\<exists>p r. t = p @ q @ r)"
proof -
  have any: "like ''%'' r" for r
    using like_percent [of "[]" r] by auto
  have "like (''%'' @ q @ ''%'') t \<longleftrightarrow> (\<exists>p r. t = p @ r \<and> like (q @ ''%'') r)"
    using like_percent [of "q @ ''%''" t] by simp
  also have "\<dots> \<longleftrightarrow> (\<exists>p r. t = p @ q @ r)"
    using like_literal [OF assms, of "''%''"] any by auto
  finally show ?thesis .
qed

lemma pg_searchEvents_spec:
  assumes "set query \<inter> {CHR ''%'', CHR ''_'', CHR 0x5C} = {}"
  shows "pg_searchEvents db query =
     map (pg_withDetails db)
       (filter (\<lambda>event.
                  (\<exists>p t. Event.title event = p @ query @ t) \<or>
                  (\<exists>p t. Event.description event = p @ query @ t) \<or>
                  (\<exists>p t. Event.location event = p @ query @ t))
          (PgDb.events db))"
  using like_substring [OF assms]
  by (simp add: pg_searchEvents_def Let_def del: like.simps)

text \<open>
  C2. The claim: in both stores \<^verbatim>\<open>searchEvents(q)\<close> returns the events that have \<open>q\<close>,
  compared without regard to case, as a substring of the title, the description or the
  location, each as an \<^verbatim>\<open>EventWithAttendees\<close>. The evaluation below is on the seeded
  stores. For \<^verbatim>\<open>"festival"\<close> the \<^verbatim>\<open>MemStorage\<close> returns the events 1 and 3, whose titles
  end in "Festival", and the \<^verbatim>\<open>PgStorage\<close> returns nothing, since \<^verbatim>\<open>LIKE\<close> compares
  with regard to case; it returns them for \<^verbatim>\<open>"Festival"\<close>. For \<^verbatim>\<open>"M_sic"\<close>, which is a
  substring of no field, the \<^verbatim>\<open>PgStorage\<close> returns event 1, the underscore standing for
  the "u" of "Music". In the \<^verbatim>\<open>MemStorage\<close> with the added event 7 of the missing host,
  the entry for event 7 is \<^verbatim>\<open>undefined\<close>.
\<close>

theorem pg_searchEvents_case_sensitive_eval:
  "map (map_option Event.id) (mem_searchEvents (new_MemStorage 0) ''festival'') = [Some 1, Some 3] \<and>
   pg_searchEvents (pg_seeded 0) ''festival'' = [] \<and>
   map Event.id (pg_searchEvents (pg_seeded 0) ''Festival'') = [1, 3] \<and>
   map (map_option Event.id) (mem_searchEvents (new_MemStorage 0) ''M_sic'') = [] \<and>
   map Event.id (pg_searchEvents (pg_seeded 0) ''M_sic'') = [1] \<and>
   map (map_option Event.id) (mem_searchEvents mem_example ''summer'') = [Some 1, None]"
proof -
  have "map (map_option Event.id) (mem_searchEvents (new_MemStorage 0) ''festival'') = [Some 1, Some 3]"
    by code_simp
  moreover have "pg_searchEvents (pg_seeded 0) ''festival'' = []"
    by code_simp
  moreover have "map Event.id (pg_searchEvents (pg_seeded 0) ''Festival'') = [1, 3]"
    by code_simp
  moreover have "map (map_option Event.id) (mem_searchEvents (new_MemStorage 0) ''M_sic'') = []"
    by code_simp
  moreover have "map Event.id (pg_searchEvents (pg_seeded 0) ''M_sic'') = [1]"
    by code_simp
  moreover have "map (map_option Event.id) (mem_searchEvents mem_example ''summer'') = [Some 1, None]"
    by code_simp
  ultimately show ?thesis
    by blast
qed
subsection \<open>Listing by category\<close>

lemma getEventsByCategory_All:
  "mem_getEventsByCategory s ''All'' = mem_getAllEvents s"
  "pg_getEventsByCategory db ''All'' = pg_getAllEvents db"
  by (simp_all add: mem_getEventsByCategory_def pg_getEventsByCategory_def)

lemma pg_getEventsByCategory_exact:
  "c \<noteq> ''All'' \<Longrightarrow>
   map Event.truncate (pg_getEventsByCategory db c) =
     filter (\<lambda>e. Event.categoryId e = c) (PgDb.events db)"
  by (simp add: pg_getEventsByCategory_def comp_def)

lemma pg_getAllEvents_events: "map Event.truncate (pg_getAllEvents db) = PgDb.events db"
  by (simp add: pg_getAllEvents_def comp_def)

lemma mem_getEvent_stored:
  assumes "mem_wf s" and "e \<in> set (map snd (MemStorage.events s))"
  shows "mem_getEvent s (Event.id e) = None \<and> mem_getUser s (Event.hostId e) = None \<or>
         (\<exists>r. mem_getEvent s (Event.id e) = Some r \<and> Event.truncate r = e)"
proof -
  from assms obtain k where k: "(k, e) \<in> set (MemStorage.events s)" by auto
  with assms(1) have "Event.id e = k"
    by (auto simp add: mem_wf_def list_all_iff)
  with k assms(1) have "map_of (MemStorage.events s) (Event.id e) = Some e"
    by (simp add: mem_wf_def)
  then show ?thesis
    by (cases "map_of (MemStorage.users s) (Event.hostId e)")
      (simp_all add: mem_getEvent_def mem_getUser_def)
qed

lemma mem_getEventsByCategory_entries:
  assumes "mem_wf s" and "c \<noteq> ''All''"
  shows "list_all2
           (\<lambda>r e. r = None \<and> mem_getUser s (Event.hostId e) = None \<or>
                  (\<exists>x. r = Some x \<and> Event.truncate x = e))
           (mem_getEventsByCategory s c)
           (filter (\<lambda>e. Event.categoryId e = c) (map snd (MemStorage.events s)))"
proof -
  let ?ys = "filter (\<lambda>e. Event.categoryId e = c) (map snd (MemStorage.events s))"
  have "\<forall>e \<in> set ?ys.
          mem_getEvent s (Event.id e) = None \<and> mem_getUser s (Event.hostId e) = None \<or>
          (\<exists>x. mem_getEvent s (Event.id e) = Some x \<and> Event.truncate x = e)"
    using mem_getEvent_stored [OF assms(1)] by simp
  then show ?thesis
    using assms(2) by (simp add: mem_getEventsByCategory_def list_all2_map1 list_all2_same)
qed

lemma set_AList_update: "set (AList.update k v al) \<subseteq> insert (k, v) (set al)"
  by (induction al) auto

lemma mem_wf_createEvent: "mem_wf s \<Longrightarrow> mem_wf (snd (mem_createEvent now p s))"
proof -
  assume wf: "mem_wf s"
  obtain e s' where c: "mem_createEvent now p s = (e, s')"
    by (cases "mem_createEvent now p s")
  then have ev: "MemStorage.events s' = AList.update (Event.id e) e (MemStorage.events s)"
    by (auto simp add: mem_createEvent_def Let_def)
  have "set (MemStorage.events s') \<subseteq> insert (Event.id e, e) (set (MemStorage.events s))"
    unfolding ev by (rule set_AList_update)
  with wf have "list_all (\<lambda>(k, e). Event.id e = k) (MemStorage.events s')"
    by (auto simp add: mem_wf_def list_all_iff)
  moreover from wf have "distinct (map fst (MemStorage.events s'))"
    unfolding ev by (simp add: mem_wf_def distinct_update)
  ultimately show ?thesis
    by (simp add: c mem_wf_def)
qed

lemma mem_wf_deleteEvent: "mem_wf s \<Longrightarrow> mem_wf (snd (mem_deleteEvent s i))"
proof -
  assume wf: "mem_wf s"
  have "set (AList.delete i (MemStorage.events s)) \<subseteq> set (MemStorage.events s)"
    by (auto simp add: AList.delete_eq)
  with wf have "list_all (\<lambda>(k, e). Event.id e = k) (AList.delete i (MemStorage.events s))"
    by (auto simp add: mem_wf_def list_all_iff)
  moreover from wf have "distinct (map fst (AList.delete i (MemStorage.events s)))"
    by (simp add: mem_wf_def distinct_delete)
  ultimately show ?thesis
    by (simp add: mem_deleteEvent_def mem_wf_def)
qed

lemma mem_wf_others:
  "mem_wf (snd (mem_createUser now u s)) = mem_wf s"
  "mem_wf (snd (mem_createAttendee now a s)) = mem_wf s"
  "mem_wf (snd (mem_deleteAttendee s x y)) = mem_wf s"
  by (simp_all add: mem_wf_def mem_createUser_def mem_createAttendee_def mem_deleteAttendee_def
      Let_def split: option.splits)

lemma mem_wf_new: "mem_wf (new_MemStorage now)"
proof -
  have "mem_wf \<lparr>MemStorage.users = [], events = [], attendees = [],
        userId = 1, eventId = 1, attendeeId = 1\<rparr>"
    by (simp add: mem_wf_def)
  then show ?thesis
    unfolding new_MemStorage_def mem_seedData_def Let_def
    by (intro mem_wf_createEvent mem_wf_others [THEN iffD2])
qed

text \<open>
  C3. The claim: \<^verbatim>\<open>getEventsByCategory("All")\<close> equals \<^verbatim>\<open>getAllEvents()\<close>, and for
  another category the result holds exactly the events of that category. The first part
  holds in both stores (\<open>getEventsByCategory_All\<close>), the second in \<^verbatim>\<open>PgStorage\<close>
  (\<open>pg_getEventsByCategory_exact\<close>), and in \<^verbatim>\<open>MemStorage\<close> for the events whose host
  resolves (\<open>mem_getEventsByCategory_entries\<close>). The evaluation below is on the stores
  with the added event 7 of category Music, whose host is missing: the events of category
  Music are 1 and 7; the \<^verbatim>\<open>MemStorage\<close> returns event 1 and \<^verbatim>\<open>undefined\<close>, the
  \<^verbatim>\<open>PgStorage\<close> returns the events 1 and 7.
\<close>

theorem mem_getEventsByCategory_undefined_eval:
  "map Event.id (filter (\<lambda>e. Event.categoryId e = ''Music'') (map snd (MemStorage.events mem_example)))
     = [1, 7] \<and>
   map (map_option Event.id) (mem_getEventsByCategory mem_example ''Music'') = [Some 1, None] \<and>
   map Event.id (pg_getEventsByCategory pg_example ''Music'') = [1, 7]"
proof -
  have "map Event.id
      (filter (\<lambda>e. Event.categoryId e = ''Music'') (map snd (MemStorage.events mem_example))) = [1, 7]"
    by code_simp
  moreover have "map (map_option Event.id) (mem_getEventsByCategory mem_example ''Music'') = [Some 1, None]"
    by code_simp
  moreover have "map Event.id (pg_getEventsByCategory pg_example ''Music'') = [1, 7]"
    by code_simp
  ultimately show ?thesis
    by blast
qed
subsection \<open>Events near a location\<close>

lemma those_None_iff: "those xs = None \<longleftrightarrow> None \<in> set xs"
  by (induction xs) (auto split: option.splits)

lemma those_Some_map: "those xs = Some ys \<Longrightarrow> xs = map Some ys"
  by (induction xs arbitrary: ys) (auto split: option.splits)

lemma nearLocation_sorted:
  "sorted (map (\<lambda>e. rank (orZero (Event.distanceInMiles e))) (nearLocation calc lat lng d xs))"
  by (simp add: nearLocation_def)

lemma nearLocation_mset:
  "mset (nearLocation calc lat lng d xs) =
     image_mset (\<lambda>e. e\<lparr>Event.distanceInMiles := Some (calc lat lng (Event.latitude e) (Event.longitude e))\<rparr>)
       (filter_mset (\<lambda>e. lessEq (calc lat lng (Event.latitude e) (Event.longitude e)) d) (mset xs))"
  by (simp add: nearLocation_def filter_map comp_def)

lemma nearLocation_distance:
  assumes "r \<in> set (nearLocation calc lat lng d xs)"
  shows "Event.distanceInMiles r = Some (calc lat lng (Event.latitude r) (Event.longitude r)) \<and>
         lessEq (calc lat lng (Event.latitude r) (Event.longitude r)) d \<and>
         calc lat lng (Event.latitude r) (Event.longitude r) \<noteq> NaN"
  using assms by (auto simp add: nearLocation_def lessEq_def)

lemma nearLocation_stable:
  "filter (\<lambda>e. rank (orZero (Event.distanceInMiles e)) = k) (nearLocation calc lat lng d xs) =
   filter (\<lambda>e. rank (orZero (Event.distanceInMiles e)) = k)
     (filter (\<lambda>e. lessEq (calc lat lng (Event.latitude e) (Event.longitude e)) d)
        (map (\<lambda>e. e\<lparr>Event.distanceInMiles := Some (calc lat lng (Event.latitude e) (Event.longitude e))\<rparr>) xs))"
  by (simp add: nearLocation_def sort_key_stable filter_map comp_def)

lemma pg_getEventsNearLocation_spec:
  "sorted (map (\<lambda>e. rank (orZero (Event.distanceInMiles e))) (pg_getEventsNearLocation F db lat lng d))"
  "mset (pg_getEventsNearLocation F db lat lng d) =
     image_mset (\<lambda>e. e\<lparr>Event.distanceInMiles :=
                        Some (pg_calculateDistance F lat lng (Event.latitude e) (Event.longitude e))\<rparr>)
       (filter_mset
          (\<lambda>e. lessEq (pg_calculateDistance F lat lng (Event.latitude e) (Event.longitude e)) d)
          (mset (pg_getAllEvents db)))"
  "r \<in> set (pg_getEventsNearLocation F db lat lng d) \<Longrightarrow>
     Event.distanceInMiles r =
       Some (pg_calculateDistance F lat lng (Event.latitude r) (Event.longitude r)) \<and>
     lessEq (pg_calculateDistance F lat lng (Event.latitude r) (Event.longitude r)) d \<and>
     pg_calculateDistance F lat lng (Event.latitude r) (Event.longitude r) \<noteq> NaN"
  unfolding pg_getEventsNearLocation_def
  by (rule nearLocation_sorted, rule nearLocation_mset, rule nearLocation_distance)

lemma mem_getEventsNearLocation_TypeError:
  "mem_getEventsNearLocation F s lat lng d = Inl TypeError \<longleftrightarrow> None \<in> set (mem_getAllEvents s)"
  by (auto simp add: mem_getEventsNearLocation_def those_None_iff [symmetric] split: option.splits)

lemma those_map_Some: "those (map Some xs) = Some xs"
  by (induction xs) simp_all

lemma mem_getAllEvents_defined:
  "None \<notin> set (mem_getAllEvents s) \<Longrightarrow> \<exists>xs. mem_getAllEvents s = map Some xs"
  by (cases "those (mem_getAllEvents s)") (auto simp add: those_None_iff dest: those_Some_map)

lemma mem_getEventsNearLocation_spec:
  assumes "mem_getAllEvents s = map Some xs"
  shows "\<exists>rs. mem_getEventsNearLocation F s lat lng d = Inr rs \<and>
           sorted (map (\<lambda>e. rank (orZero (Event.distanceInMiles e))) rs) \<and>
           mset rs =
             image_mset (\<lambda>e. e\<lparr>Event.distanceInMiles :=
                        Some (mem_calculateDistance F lat lng (Event.latitude e) (Event.longitude e))\<rparr>)
               (filter_mset
                  (\<lambda>e. lessEq (mem_calculateDistance F lat lng (Event.latitude e) (Event.longitude e)) d)
                  (mset xs)) \<and>
           (\<forall>r \<in> set rs.
              Event.distanceInMiles r =
                Some (mem_calculateDistance F lat lng (Event.latitude r) (Event.longitude r)) \<and>
              lessEq (mem_calculateDistance F lat lng (Event.latitude r) (Event.longitude r)) d)"
proof -
  let ?rs = "nearLocation (mem_calculateDistance F) lat lng d xs"
  have "mem_getEventsNearLocation F s lat lng d = Inr ?rs"
    by (simp add: mem_getEventsNearLocation_def assms those_map_Some)
  moreover have "sorted (map (\<lambda>e. rank (orZero (Event.distanceInMiles e))) ?rs)"
    by (rule nearLocation_sorted)
  moreover have "\<forall>r \<in> set ?rs.
              Event.distanceInMiles r =
                Some (mem_calculateDistance F lat lng (Event.latitude r) (Event.longitude r)) \<and>
              lessEq (mem_calculateDistance F lat lng (Event.latitude r) (Event.longitude r)) d"
    using nearLocation_distance by blast
  ultimately show ?thesis
    using nearLocation_mset by blast
qed

text \<open>
  C4. The claim: \<^verbatim>\<open>getEventsNearLocation(lat, lng, maxDistance)\<close> returns exactly the
  events within the bound, each with its distance attached as \<^verbatim>\<open>distanceInMiles\<close>, sorted
  by that distance. \<^verbatim>\<open>PgStorage\<close> does so in every state
  (\<open>pg_getEventsNearLocation_spec\<close>), and \<^verbatim>\<open>MemStorage\<close> in the states where the host of
  every event resolves (\<open>mem_getEventsNearLocation_spec\<close>), whatever the floating-point
  operations compute. The evaluation below: on the seeded \<^verbatim>\<open>MemStorage\<close> the call returns a
  list; with the added event 7, whose host is missing, the call throws a \<^verbatim>\<open>TypeError\<close>
  and returns no event at all.
\<close>

theorem mem_getEventsNearLocation_throws_eval:
  "(\<exists>r. mem_getEventsNearLocation F (new_MemStorage 0) (Num 40.785) (Num (- 73.9682)) (Num 1) = Inr r) \<and>
   mem_getEventsNearLocation F mem_example (Num 40.785) (Num (- 73.9682)) (Num 1) = Inl TypeError"
proof -
  have "those (mem_getAllEvents (new_MemStorage 0)) \<noteq> None"
    by code_simp
  then have "\<exists>r. mem_getEventsNearLocation F (new_MemStorage 0) (Num 40.785) (Num (- 73.9682)) (Num 1) = Inr r"
    by (auto simp add: mem_getEventsNearLocation_def)
  moreover have "those (mem_getAllEvents mem_example) = None"
    by code_simp
  then have "mem_getEventsNearLocation F mem_example (Num 40.785) (Num (- 73.9682)) (Num 1) = Inl TypeError"
    by (simp add: mem_getEventsNearLocation_def)
  ultimately show ?thesis
    by blast
qed

end
